theory Spec2Isabelle
  imports Complex_Main "HOL-Library.Signed_Division"
begin

section \<open>Conventions of the embedding\<close>

text \<open>
  The theory embeds the coordinate transform of \<^verbatim>\<open>src/src/coords.cpp\<close> and the helix of
  \<^verbatim>\<open>src/src/particles/StHelix.hh\<close>.

  \<^item> A C++ \<^verbatim>\<open>double\<close> is a \<^typ>\<open>real\<close>: the arithmetic is exact, rounding is not
    modelled. Only \<^verbatim>\<open>StHelix::bad\<close> has to tell a finite number from an infinity or a
    NaN; its numbers are of the type \<open>double\<close> declared below.
  \<^item> A C++ \<^verbatim>\<open>int\<close> is an \<^typ>\<open>int\<close>; the row, sector and stage numbers of the
    properties proved here are far from the 32-bit limits.
  \<^item> A C array is a list, read through \<open>at_index\<close>: a read outside the array is the
    error value \<open>OutOfBounds\<close> instead of an unspecified number.
  \<^item> A function that can fail returns \<open>error + 'a\<close>, with \<open>Inl\<close> for the failure.
\<close>

datatype error = OutOfBounds | NullPointer | BadArrayLength | AssertionFailed

definition at_index :: "'a list \<Rightarrow> int \<Rightarrow> error + 'a" where
  "at_index xs i = (if 0 \<le> i \<and> i < int (length xs) then Inr (xs ! nat i) else Inl OutOfBounds)"

section \<open>The geometry primitive\<close>

text \<open>
  Modelled from the spec: the vector and rigid-transform classes (\<^verbatim>\<open>TVector3\<close>,
  \<^verbatim>\<open>TGeoHMatrix\<close>, \<^verbatim>\<open>TGeoRotation\<close>, \<^verbatim>\<open>TGeoTranslation\<close>) belong to an external geometry
  library whose code is not under \<^verbatim>\<open>src/\<close>. A rotation holds the nine numbers
  \<open>r[0] .. r[8]\<close> of a 3x3 matrix in row-major order, as lines 269-271 and 358-375 use
  them; a translation holds three numbers.
\<close>

datatype TVector3 = TVector3 (vx: real) (vy: real) (vz: real)

datatype Rotation = Rotation (r0: real) (r1: real) (r2: real)
                             (r3: real) (r4: real) (r5: real)
                             (r6: real) (r7: real) (r8: real)

record TGeoHMatrix =
  fTranslation :: TVector3
  fRotationMatrix :: Rotation

text \<open>A default-constructed \<^verbatim>\<open>TGeoHMatrix\<close> is the identity.\<close>

definition TGeoHMatrix_identity :: TGeoHMatrix where
  "TGeoHMatrix_identity =
    \<lparr>fTranslation = TVector3 0 0 0, fRotationMatrix = Rotation 1 0 0 0 1 0 0 0 1\<rparr>"

subsection \<open>Vectors\<close>

text \<open>
  Modelled from the spec: the vector of the geometry primitive, with dot product, cross
  product, magnitude and multiplication by a number (\<^verbatim>\<open>TVector3::Dot\<close>, \<^verbatim>\<open>Cross\<close>,
  \<^verbatim>\<open>Mag\<close>, \<^verbatim>\<open>operator*=\<close>).
\<close>

definition Dot :: "TVector3 \<Rightarrow> TVector3 \<Rightarrow> real" where
  "Dot a b = vx a * vx b + vy a * vy b + vz a * vz b"

definition Cross :: "TVector3 \<Rightarrow> TVector3 \<Rightarrow> TVector3" where
  "Cross a b = TVector3 (vy a * vz b - vz a * vy b) (vz a * vx b - vx a * vz b)
                        (vx a * vy b - vy a * vx b)"

definition Mag :: "TVector3 \<Rightarrow> real" where
  "Mag a = sqrt (vx a * vx a + vy a * vy a + vz a * vz a)"

definition scale :: "real \<Rightarrow> TVector3 \<Rightarrow> TVector3" where
  "scale k a = TVector3 (k * vx a) (k * vy a) (k * vz a)"

definition vadd :: "TVector3 \<Rightarrow> TVector3 \<Rightarrow> TVector3" where
  "vadd a b = TVector3 (vx a + vx b) (vy a + vy b) (vz a + vz b)"

subsection \<open>Rigid transforms\<close>

text \<open>
  Modelled from the spec: a rigid transform is a rotation matrix and a translation,
  composed by matrix multiplication of the homogeneous matrices
  (\<^verbatim>\<open>TGeoHMatrix::operator*\<close>): the product applies its right factor first.
\<close>

definition mat_vec :: "Rotation \<Rightarrow> TVector3 \<Rightarrow> TVector3" where
  "mat_vec a v = TVector3 (r0 a * vx v + r1 a * vy v + r2 a * vz v)
                          (r3 a * vx v + r4 a * vy v + r5 a * vz v)
                          (r6 a * vx v + r7 a * vy v + r8 a * vz v)"

definition rot_mul :: "Rotation \<Rightarrow> Rotation \<Rightarrow> Rotation" where
  "rot_mul a b = Rotation
     (r0 a * r0 b + r1 a * r3 b + r2 a * r6 b)
     (r0 a * r1 b + r1 a * r4 b + r2 a * r7 b)
     (r0 a * r2 b + r1 a * r5 b + r2 a * r8 b)
     (r3 a * r0 b + r4 a * r3 b + r5 a * r6 b)
     (r3 a * r1 b + r4 a * r4 b + r5 a * r7 b)
     (r3 a * r2 b + r4 a * r5 b + r5 a * r8 b)
     (r6 a * r0 b + r7 a * r3 b + r8 a * r6 b)
     (r6 a * r1 b + r7 a * r4 b + r8 a * r7 b)
     (r6 a * r2 b + r7 a * r5 b + r8 a * r8 b)"

definition TGeoHMatrix_mul :: "TGeoHMatrix \<Rightarrow> TGeoHMatrix \<Rightarrow> TGeoHMatrix" where
  "TGeoHMatrix_mul a b =
    \<lparr>fTranslation = vadd (fTranslation a) (mat_vec (fRotationMatrix a) (fTranslation b)),
     fRotationMatrix = rot_mul (fRotationMatrix a) (fRotationMatrix b)\<rparr>"

text \<open>
  Modelled from the spec: \<^verbatim>\<open>RotateX\<close>, \<^verbatim>\<open>RotateY\<close> and \<^verbatim>\<open>RotateZ\<close> turn a transform
  about an axis of the master frame by an angle in degrees, that is, multiply it from the
  left by the axis rotation; they turn the translation too.
\<close>

definition RotateX :: "real \<Rightarrow> TGeoHMatrix \<Rightarrow> TGeoHMatrix" where
  "RotateX angle m =
    (let phi = angle * pi / 180; c = cos phi; s = sin phi;
         r = fRotationMatrix m; t = fTranslation m
     in \<lparr>fTranslation = TVector3 (vx t) (c * vy t - s * vz t) (s * vy t + c * vz t),
         fRotationMatrix = Rotation
           (r0 r) (r1 r) (r2 r)
           (c * r3 r - s * r6 r) (c * r4 r - s * r7 r) (c * r5 r - s * r8 r)
           (s * r3 r + c * r6 r) (s * r4 r + c * r7 r) (s * r5 r + c * r8 r)\<rparr>)"

definition RotateY :: "real \<Rightarrow> TGeoHMatrix \<Rightarrow> TGeoHMatrix" where
  "RotateY angle m =
    (let phi = angle * pi / 180; c = cos phi; s = sin phi;
         r = fRotationMatrix m; t = fTranslation m
     in \<lparr>fTranslation = TVector3 (c * vx t + s * vz t) (vy t) (- s * vx t + c * vz t),
         fRotationMatrix = Rotation
           (c * r0 r + s * r6 r) (c * r1 r + s * r7 r) (c * r2 r + s * r8 r)
           (r3 r) (r4 r) (r5 r)
           (- s * r0 r + c * r6 r) (- s * r1 r + c * r7 r) (- s * r2 r + c * r8 r)\<rparr>)"

definition RotateZ :: "real \<Rightarrow> TGeoHMatrix \<Rightarrow> TGeoHMatrix" where
  "RotateZ angle m =
    (let phi = angle * pi / 180; c = cos phi; s = sin phi;
         r = fRotationMatrix m; t = fTranslation m
     in \<lparr>fTranslation = TVector3 (c * vx t - s * vy t) (s * vx t + c * vy t) (vz t),
         fRotationMatrix = Rotation
           (c * r0 r - s * r3 r) (c * r1 r - s * r4 r) (c * r2 r - s * r5 r)
           (s * r0 r + c * r3 r) (s * r1 r + c * r4 r) (s * r2 r + c * r5 r)
           (r6 r) (r7 r) (r8 r)\<rparr>)"

text \<open>
  Modelled from the spec: \<^verbatim>\<open>TGeoRotation::SetAngles\<close> sets the three columns of a
  rotation from the polar and azimuthal angles, in degrees, of the three axes;
  \<^verbatim>\<open>TGeoRotation::RotateZ\<close> is \<open>RotateZ\<close> on a transform without translation.
\<close>

definition SetAngles :: "real \<Rightarrow> real \<Rightarrow> real \<Rightarrow> real \<Rightarrow> real \<Rightarrow> real \<Rightarrow> Rotation" where
  "SetAngles theta1 phi1 theta2 phi2 theta3 phi3 =
    (let degrad = pi / 180
     in Rotation
          (cos (degrad * phi1) * sin (degrad * theta1))
          (cos (degrad * phi2) * sin (degrad * theta2))
          (cos (degrad * phi3) * sin (degrad * theta3))
          (sin (degrad * phi1) * sin (degrad * theta1))
          (sin (degrad * phi2) * sin (degrad * theta2))
          (sin (degrad * phi3) * sin (degrad * theta3))
          (cos (degrad * theta1))
          (cos (degrad * theta2))
          (cos (degrad * theta3)))"

definition TGeoRotation_RotateZ :: "real \<Rightarrow> Rotation \<Rightarrow> Rotation" where
  "TGeoRotation_RotateZ angle r =
    fRotationMatrix (RotateZ angle \<lparr>fTranslation = TVector3 0 0 0, fRotationMatrix = r\<rparr>)"

definition TGeoTranslation :: "real \<Rightarrow> real \<Rightarrow> real \<Rightarrow> TGeoHMatrix" where
  "TGeoTranslation dx dy dz =
    \<lparr>fTranslation = TVector3 dx dy dz, fRotationMatrix = Rotation 1 0 0 0 1 0 0 0 1\<rparr>"

section \<open>The calibration provider\<close>

text \<open>
  \<^verbatim>\<open>cfg_.S<table>()\<close> reads the first row of a calibration table, \<^verbatim>\<open>cfg_.S<table>(i)\<close>
  its row \<open>i\<close>, \<^verbatim>\<open>cfg_.C<chair>().GetMatrix(i)\<close> a pre-built alignment transform. The
  table structs are declared outside \<^verbatim>\<open>src/\<close>; each is a record of the fields that
  \<^verbatim>\<open>coords.cpp\<close> reads. The helpers \<^verbatim>\<open>tpcrs::NumberOfPads\<close>, \<^verbatim>\<open>tpcrs::RadialDistanceAtRow\<close>,
  \<^verbatim>\<open>tpcrs::IsInner\<close> and \<^verbatim>\<open>tpcrs::DriftVelocity\<close> (header \<^verbatim>\<open>math_funcs.h\<close>, not under
  \<^verbatim>\<open>src/\<close>) are functions of the configuration and are taken as parameters.
\<close>

record tpcPadPlanes =
  padRows :: int
  innerPadRows :: int
  innerSectorPadPitch :: real
  outerSectorPadPitch :: real
  outerSectorPadPlaneZ :: real

record tpcWirePlanes =
  outerSectorGatingGridPadSep :: real

record starClockOnl =
  frequency :: real

record tpcEffectiveGeom =
  z_inner_offset :: real
  z_outer_offset :: real

record trgTimeOffset =
  offset :: real

record tpcElectronics =
  tZero :: real

record tpcPadrowT0 =
  T0 :: "real list"

record tpcSectorT0offset =
  t0 :: "real list"

record tpcGlobalPosition =
  PhiXZ_geom :: real
  PhiYZ_geom :: real
  LocalxShift :: real
  LocalyShift :: real
  LocalzShift :: real

record Configurator =
  S_tpcPadPlanes :: tpcPadPlanes
  S_tpcWirePlanes :: tpcWirePlanes
  S_starClockOnl :: starClockOnl
  S_tpcEffectiveGeom :: tpcEffectiveGeom
  S_trgTimeOffset :: trgTimeOffset
  S_tpcElectronics :: tpcElectronics
  S_tpcPadrowT0 :: "tpcPadrowT0 list"
  S_tpcSectorT0offset :: tpcSectorT0offset
  S_tpcGlobalPosition :: tpcGlobalPosition
  StTpcSuperSectorPosition :: "int \<Rightarrow> TGeoHMatrix"
  StTpcOuterSectorPosition :: "int \<Rightarrow> TGeoHMatrix"
  NumberOfPads :: "int \<Rightarrow> int"
  RadialDistanceAtRow :: "int \<Rightarrow> real"
  IsInner :: "int \<Rightarrow> bool"
  DriftVelocity :: "int \<Rightarrow> real"

section \<open>The coordinate transform\<close>

text \<open>
  The members of \<^verbatim>\<open>CoordTransform\<close> (coords.cpp, lines 42-51). The source writes
  them with a trailing underscore (\<^verbatim>\<open>cfg_\<close>, \<^verbatim>\<open>timebin_width_\<close>, ...), which is not a
  name here: they carry the prefix \<open>ct_\<close> instead.
\<close>

record CoordTransform =
  ct_cfg :: Configurator
  ct_timebin_width :: real
  ct_z_inner_offset :: real
  ct_z_outer_offset :: real
  ct_tpc2global :: TGeoHMatrix
  ct_sector_rotations :: "TGeoHMatrix list"

subsection \<open>Pad and time conversions\<close>

text \<open>\<^verbatim>\<open>CoordTransform::XToPad\<close> (lines 80-93). The sector is not used.\<close>

definition XToPad :: "CoordTransform \<Rightarrow> real \<Rightarrow> int \<Rightarrow> int \<Rightarrow> real" where
  "XToPad ct x sector row0 =
    (let planes = S_tpcPadPlanes (ct_cfg ct);
         row = (if row0 > padRows planes then padRows planes else row0);
         pitch = (if row \<le> innerPadRows planes then innerSectorPadPitch planes
                  else outerSectorPadPitch planes);
         npads = NumberOfPads (ct_cfg ct) row;
         probablePad = (real_of_int npads + 1) / 2 - x / pitch
     in if probablePad < 0.500001 then 0.500001 else probablePad)"

text \<open>\<^verbatim>\<open>CoordTransform::PadToX\<close> (lines 96-107).\<close>

definition PadToX :: "CoordTransform \<Rightarrow> int \<Rightarrow> int \<Rightarrow> real \<Rightarrow> real" where
  "PadToX ct sector row0 pad =
    (let planes = S_tpcPadPlanes (ct_cfg ct);
         row = (if row0 > padRows planes then padRows planes else row0);
         pitch = (if row \<le> innerPadRows planes then innerSectorPadPitch planes
                  else outerSectorPadPitch planes);
         npads = NumberOfPads (ct_cfg ct) row
     in - pitch * (pad - (real_of_int npads + 1) / 2))"

text \<open>
  \<^verbatim>\<open>CoordTransform::TimeToZ\<close> (lines 110-128). The reads of the per-sector table row
  \<open>sector - 1\<close>, of its entry \<open>T0[row - 1]\<close> and of \<open>t0[l - 1]\<close> are checked, in the order
  of the source. The pad is not used.
\<close>

definition TimeToZ :: "CoordTransform \<Rightarrow> real \<Rightarrow> int \<Rightarrow> int \<Rightarrow> int \<Rightarrow> error + real" where
  "TimeToZ ct tb sector row0 pad =
    (let cfg = ct_cfg ct;
         row = (if row0 > padRows (S_tpcPadPlanes cfg) then padRows (S_tpcPadPlanes cfg) else row0);
         triggerTimeOffset = 0.000001 * offset (S_trgTimeOffset cfg);
         trigT0 = triggerTimeOffset * 1000000;
         elecT0 = tZero (S_tpcElectronics cfg)
     in case at_index (S_tpcPadrowT0 cfg) (sector - 1) of
          Inl e \<Rightarrow> Inl e
        | Inr padrowT0 \<Rightarrow>
       (case at_index (T0 padrowT0) (row - 1) of
          Inl e \<Rightarrow> Inl e
        | Inr sectT0 \<Rightarrow>
       (let t0' = trigT0 + elecT0 + sectT0;
            l = (if IsInner cfg row then sector + 24 else sector)
        in case at_index (t0 (S_tpcSectorT0offset cfg)) (l - 1) of
             Inl e \<Rightarrow> Inl e
           | Inr t0off \<Rightarrow>
          (let tbx = tb + t0off;
               time = t0' + tbx * ct_timebin_width ct
           in Inr (DriftVelocity cfg sector * 0.000001 * time)))))"

text \<open>\<^verbatim>\<open>CoordTransform::ZToTime\<close> (lines 131-147).\<close>

definition ZToTime :: "CoordTransform \<Rightarrow> real \<Rightarrow> int \<Rightarrow> int \<Rightarrow> int \<Rightarrow> error + real" where
  "ZToTime ct z sector row0 pad =
    (let cfg = ct_cfg ct;
         row = (if row0 > padRows (S_tpcPadPlanes cfg) then padRows (S_tpcPadPlanes cfg) else row0);
         triggerTimeOffset = 0.000001 * offset (S_trgTimeOffset cfg);
         trigT0 = triggerTimeOffset * 1000000;
         elecT0 = tZero (S_tpcElectronics cfg)
     in case at_index (S_tpcPadrowT0 cfg) (sector - 1) of
          Inl e \<Rightarrow> Inl e
        | Inr padrowT0 \<Rightarrow>
       (case at_index (T0 padrowT0) (row - 1) of
          Inl e \<Rightarrow> Inl e
        | Inr sectT0 \<Rightarrow>
       (let t0' = trigT0 + elecT0 + sectT0;
            time = z / (DriftVelocity cfg sector * 0.000001);
            l = (if IsInner cfg row then sector + 24 else sector)
        in case at_index (t0 (S_tpcSectorT0offset cfg)) (l - 1) of
             Inl e \<Rightarrow> Inl e
           | Inr t0off \<Rightarrow> Inr ((time - t0') / ct_timebin_width ct - t0off))))"

subsection \<open>Row lookup\<close>

text \<open>
  Modelled from the spec: the binary search over the boundary sequence is
  \<^verbatim>\<open>std::lower_bound\<close> of the C++ standard library, the halving loop over the range of
  \<open>len\<close> elements that starts at index \<open>first\<close>. Every element it reads lies at an index
  \<open>middle\<close> with \<open>first \<le> middle < first + len\<close>.
\<close>

function lower_bound :: "real list \<Rightarrow> nat \<Rightarrow> nat \<Rightarrow> real \<Rightarrow> nat" where
  "lower_bound xs first len val =
    (if len = 0 then first
     else if xs ! (first + len div 2) < val
          then lower_bound xs (first + len div 2 + 1) (len - len div 2 - 1) val
          else lower_bound xs first (len div 2) val)"
  by pat_completeness auto
termination
  by (relation "measure (\<lambda>(xs, first, len, val). len)") auto

declare lower_bound.simps [simp del]

text \<open>
  The function-local statics of \<^verbatim>\<open>CoordTransform::YToRow\<close> (lines 152-153): the row count
  the table was built for, and the table of row boundaries (\<open>None\<close> is the null pointer,
  the initial value).
\<close>

record YToRow_static =
  Nrows :: int
  Radii :: "real list option"

definition YToRow_static_init :: YToRow_static where
  "YToRow_static_init = \<lparr>Nrows = 0, Radii = None\<rparr>"

text \<open>The value the loop of lines 162-175 stores at \<open>Radii[i - 1]\<close>.\<close>

definition row_boundary :: "Configurator \<Rightarrow> int \<Rightarrow> int \<Rightarrow> real" where
  "row_boundary cfg n i =
    (if i = 1 then (3 * RadialDistanceAtRow cfg i - RadialDistanceAtRow cfg (i + 1)) / 2
     else if i = n + 1 then (3 * RadialDistanceAtRow cfg (i - 1) - RadialDistanceAtRow cfg (i - 2)) / 2
     else (RadialDistanceAtRow cfg (i - 1) + RadialDistanceAtRow cfg i) / 2)"

definition build_Radii :: "Configurator \<Rightarrow> int \<Rightarrow> real list" where
  "build_Radii cfg n = map (row_boundary cfg n) [1..n + 1]"

text \<open>
  \<^verbatim>\<open>CoordTransform::YToRow\<close> (lines 150-187), with the statics passed in and returned.
  \<^verbatim>\<open>new double[Nrows + 1]\<close> throws for a negative length, after \<open>Nrows\<close> has been
  assigned and the old table deleted; a search through the null pointer is an error too.
  The sector is not used.
\<close>

definition YToRow ::
  "CoordTransform \<Rightarrow> YToRow_static \<Rightarrow> real \<Rightarrow> int \<Rightarrow> (error + int) \<times> YToRow_static" where
  "YToRow ct st y sector =
    (let n = padRows (S_tpcPadPlanes (ct_cfg ct));
         rebuild = (Nrows st \<noteq> n);
         st1 = (if rebuild
                then \<lparr>Nrows = n,
                      Radii = (if n + 1 < 0 then None else Some (build_Radii (ct_cfg ct) n))\<rparr>
                else st)
     in if rebuild \<and> n + 1 < 0 then (Inl BadArrayLength, st1)
        else case Radii st1 of
               None \<Rightarrow> (Inl NullPointer, st1)
             | Some radii \<Rightarrow>
                (let r_ptr = int (lower_bound radii 0 (nat (Nrows st1 + 1)) y);
                     row = (if r_ptr \<noteq> Nrows st1 + 1 \<and> radii ! nat r_ptr = y then r_ptr + 1 else r_ptr);
                     row = (if row \<le> 0 then 1 else row);
                     row = (if row > Nrows st1 then Nrows st1 else row)
                 in (Inr row, st1)))"

subsection \<open>Local sector coordinate to pad coordinate\<close>

text \<open>
  \<^verbatim>\<open>Coords\<close>, \<^verbatim>\<open>StTpcLocalSectorCoordinate\<close> and \<^verbatim>\<open>StTpcPadCoordinate\<close> (header
  \<^verbatim>\<open>tpcrs/detail/coords.h\<close>, not under \<^verbatim>\<open>src/\<close>), with the fields that
  \<^verbatim>\<open>coords.cpp\<close> reads and writes, in the order of the aggregate initialisers of
  lines 66 and 76. The fields \<open>x, y, z, sector, row, pad\<close> carry a prefix.
\<close>

record Coords =
  coord_x :: real
  coord_y :: real
  coord_z :: real

record StTpcLocalSectorCoordinate =
  ls_position :: Coords
  ls_sector :: int
  ls_row :: int

record StTpcPadCoordinate =
  pc_sector :: int
  pc_row :: int
  pc_pad :: real
  pc_timeBucket :: real

text \<open>
  \<^verbatim>\<open>CoordTransform::local_sector_to_hardware\<close> (lines 55-67). \<open>ZToTime\<close> takes the pad
  as an \<^verbatim>\<open>int\<close>: the conversion of the positive \<open>probablePad\<close> rounds down.
\<close>

definition local_sector_to_hardware ::
  "CoordTransform \<Rightarrow> YToRow_static \<Rightarrow> StTpcLocalSectorCoordinate
    \<Rightarrow> (error + StTpcPadCoordinate) \<times> YToRow_static" where
  "local_sector_to_hardware ct st a =
    (let planes = S_tpcPadPlanes (ct_cfg ct);
         (r, st1) = (if ls_row a < 1 \<or> ls_row a > padRows planes
                     then YToRow ct st (coord_y (ls_position a)) (ls_sector a)
                     else (Inr (ls_row a), st))
     in case r of
          Inl e \<Rightarrow> (Inl e, st1)
        | Inr row \<Rightarrow>
           (let probablePad = XToPad ct (coord_x (ls_position a)) (ls_sector a) (ls_row a);
                zoffset = (if row > innerPadRows planes then ct_z_outer_offset ct
                           else ct_z_inner_offset ct)
            in case ZToTime ct (coord_z (ls_position a) + zoffset) (ls_sector a) row \<lfloor>probablePad\<rfloor> of
                 Inl e \<Rightarrow> (Inl e, st1)
               | Inr tb \<Rightarrow>
                  (Inr \<lparr>pc_sector = ls_sector a, pc_row = row, pc_pad = probablePad,
                        pc_timeBucket = tb\<rparr>, st1)))"

subsection \<open>The sector transform cache\<close>

text \<open>
  Lines 357-377: the re-orthonormalisation of a computed transform. The columns \<open>d\<close> and
  \<open>t\<close> are divided by their lengths; for a column of length zero the source divides by
  zero and leaves the real numbers, so the model speaks for columns that are not zero.
\<close>

definition Normalize :: "TGeoHMatrix \<Rightarrow> TGeoHMatrix" where
  "Normalize rotA =
    (let r = fRotationMatrix rotA;
         d = TVector3 (r0 r) (r3 r) (r6 r);
         t = TVector3 (r2 r) (r5 r) (r8 r);
         n = TVector3 (r1 r) (r4 r) (r7 r);
         d = scale (1 / Mag d) d;
         t = scale (1 / Mag t) t;
         c = Cross d t;
         c = (if Dot c n < 0 then scale (- 1) c else c)
     in rotA\<lparr>fRotationMatrix := Rotation (vx d) (vx c) (vx t)
                                         (vy d) (vy c) (vy t)
                                         (vz d) (vz c) (vz t)\<rparr>)"

text \<open>
  Modelled from the spec: the fourteen stages of a sector, in the order of section 3.
  The enumeration \<^verbatim>\<open>ETpcSectorRotationType\<close> is declared in the header
  \<^verbatim>\<open>tpcrs/detail/coords.h\<close>, not under \<^verbatim>\<open>src/\<close>; the numbers are those of the \<open>names\<close>
  array of lines 379-394, which the loop of line 281 indexes from \<open>kSupS2Tpc\<close> up to
  \<open>kTotalTpcSectorRotaions\<close>, and they are the order in which the stages are computed.
  The value of \<open>kUndefSector\<close>, where the loop of sector 0 starts, is a parameter of
  \<open>SetTpcRotations\<close>.
\<close>

definition kSupS2Tpc :: int where "kSupS2Tpc = 0"
definition kSupS2Glob :: int where "kSupS2Glob = 1"
definition kSubSInner2SupS :: int where "kSubSInner2SupS = 2"
definition kSubSOuter2SupS :: int where "kSubSOuter2SupS = 3"
definition kSubSInner2Tpc :: int where "kSubSInner2Tpc = 4"
definition kSubSOuter2Tpc :: int where "kSubSOuter2Tpc = 5"
definition kSubSInner2Glob :: int where "kSubSInner2Glob = 6"
definition kSubSOuter2Glob :: int where "kSubSOuter2Glob = 7"
definition kPadInner2SupS :: int where "kPadInner2SupS = 8"
definition kPadOuter2SupS :: int where "kPadOuter2SupS = 9"
definition kPadInner2Tpc :: int where "kPadInner2Tpc = 10"
definition kPadOuter2Tpc :: int where "kPadOuter2Tpc = 11"
definition kPadInner2Glob :: int where "kPadInner2Glob = 12"
definition kPadOuter2Glob :: int where "kPadOuter2Glob = 13"
definition kTotalTpcSectorRotaions :: int where "kTotalTpcSectorRotaions = 14"

text \<open>
  Modelled from the spec: the cache is keyed by sector and stage. Its accessors
  (\<^verbatim>\<open>SupS2Tpc(sector)\<close>, ...) are declared in the header, not under \<^verbatim>\<open>src/\<close>: stage \<open>k\<close>
  of a sector is read from the slot that line 402 writes,
  \<open>sector_rotations_[kTotalTpcSectorRotaions * (sector - 1) + k]\<close>.
\<close>

definition TpcRot :: "CoordTransform \<Rightarrow> int \<Rightarrow> int \<Rightarrow> error + TGeoHMatrix" where
  "TpcRot ct sector k =
     at_index (ct_sector_rotations ct) (kTotalTpcSectorRotaions * (sector - 1) + k)"

definition SupS2Tpc :: "CoordTransform \<Rightarrow> int \<Rightarrow> error + TGeoHMatrix" where
  "SupS2Tpc ct sector = TpcRot ct sector kSupS2Tpc"
definition SupS2Glob :: "CoordTransform \<Rightarrow> int \<Rightarrow> error + TGeoHMatrix" where
  "SupS2Glob ct sector = TpcRot ct sector kSupS2Glob"
definition SubSInner2SupS :: "CoordTransform \<Rightarrow> int \<Rightarrow> error + TGeoHMatrix" where
  "SubSInner2SupS ct sector = TpcRot ct sector kSubSInner2SupS"
definition SubSOuter2SupS :: "CoordTransform \<Rightarrow> int \<Rightarrow> error + TGeoHMatrix" where
  "SubSOuter2SupS ct sector = TpcRot ct sector kSubSOuter2SupS"
definition SubSInner2Tpc :: "CoordTransform \<Rightarrow> int \<Rightarrow> error + TGeoHMatrix" where
  "SubSInner2Tpc ct sector = TpcRot ct sector kSubSInner2Tpc"
definition SubSOuter2Tpc :: "CoordTransform \<Rightarrow> int \<Rightarrow> error + TGeoHMatrix" where
  "SubSOuter2Tpc ct sector = TpcRot ct sector kSubSOuter2Tpc"
definition SubSInner2Glob :: "CoordTransform \<Rightarrow> int \<Rightarrow> error + TGeoHMatrix" where
  "SubSInner2Glob ct sector = TpcRot ct sector kSubSInner2Glob"
definition SubSOuter2Glob :: "CoordTransform \<Rightarrow> int \<Rightarrow> error + TGeoHMatrix" where
  "SubSOuter2Glob ct sector = TpcRot ct sector kSubSOuter2Glob"
definition PadInner2SupS :: "CoordTransform \<Rightarrow> int \<Rightarrow> error + TGeoHMatrix" where
  "PadInner2SupS ct sector = TpcRot ct sector kPadInner2SupS"
definition PadOuter2SupS :: "CoordTransform \<Rightarrow> int \<Rightarrow> error + TGeoHMatrix" where
  "PadOuter2SupS ct sector = TpcRot ct sector kPadOuter2SupS"
definition PadInner2Tpc :: "CoordTransform \<Rightarrow> int \<Rightarrow> error + TGeoHMatrix" where
  "PadInner2Tpc ct sector = TpcRot ct sector kPadInner2Tpc"
definition PadOuter2Tpc :: "CoordTransform \<Rightarrow> int \<Rightarrow> error + TGeoHMatrix" where
  "PadOuter2Tpc ct sector = TpcRot ct sector kPadOuter2Tpc"
definition PadInner2Glob :: "CoordTransform \<Rightarrow> int \<Rightarrow> error + TGeoHMatrix" where
  "PadInner2Glob ct sector = TpcRot ct sector kPadInner2Glob"
definition PadOuter2Glob :: "CoordTransform \<Rightarrow> int \<Rightarrow> error + TGeoHMatrix" where
  "PadOuter2Glob ct sector = TpcRot ct sector kPadOuter2Glob"

text \<open>The product of two transforms read from the cache; it fails when a read fails.\<close>

definition mul_e :: "error + TGeoHMatrix \<Rightarrow> error + TGeoHMatrix \<Rightarrow> error + TGeoHMatrix" where
  "mul_e a b =
    (case a of Inl e \<Rightarrow> Inl e
     | Inr x \<Rightarrow> (case b of Inl e \<Rightarrow> Inl e | Inr y \<Rightarrow> Inr (TGeoHMatrix_mul x y)))"

text \<open>Lines 268-272: the flip, with rotation rows (0,1,0), (1,0,0), (0,0,-1).\<close>

definition flip_matrix :: TGeoHMatrix where
  "flip_matrix = TGeoHMatrix_identity\<lparr>fRotationMatrix := Rotation 0 1 0 1 0 0 0 0 (- 1)\<rparr>"

text \<open>Lines 285-296: the transform of the whole chamber, computed for sector 0.\<close>

definition tpc_reference_system :: "Configurator \<Rightarrow> TGeoHMatrix" where
  "tpc_reference_system cfg =
    (let phi = 0;
         theta = PhiXZ_geom (S_tpcGlobalPosition cfg) * 180 / pi;
         psi = PhiYZ_geom (S_tpcGlobalPosition cfg) * 180 / pi;
         rotA = RotateX (- psi) TGeoHMatrix_identity;
         rotA = RotateY (- theta) rotA;
         rotA = RotateZ (- phi) rotA
     in rotA\<lparr>fTranslation := TVector3 (LocalxShift (S_tpcGlobalPosition cfg))
                                       (LocalyShift (S_tpcGlobalPosition cfg))
                                       (LocalzShift (S_tpcGlobalPosition cfg))\<rparr>)"

text \<open>
  Lines 301-322, the case \<open>kSupS2Tpc\<close>. The \<^verbatim>\<open>%\<close> of C++ truncates towards zero
  (\<open>smod\<close>).
\<close>

definition SupS2Tpc_rotA :: "Configurator \<Rightarrow> int \<Rightarrow> TGeoHMatrix" where
  "SupS2Tpc_rotA cfg sector =
    (let rotm = Rotation 1 0 0 0 1 0 0 0 1;
         iphi = (360 + 90 - 30 * sector) smod 360;
         drift_dist_z = outerSectorPadPlaneZ (S_tpcPadPlanes cfg)
                        - outerSectorGatingGridPadSep (S_tpcWirePlanes cfg);
         rotm = (if sector > 12 then SetAngles 90 0 90 (- 90) 180 0 else rotm);
         drift_dist_z = (if sector > 12 then drift_dist_z * (- 1) else drift_dist_z);
         iphi = (if sector > 12 then (90 + 30 * (sector - 12)) smod 360 else iphi);
         rotm = TGeoRotation_RotateZ (real_of_int iphi) rotm;
         rotA = TGeoHMatrix_mul (TGeoTranslation 0 0 drift_dist_z)
                  \<lparr>fTranslation = TVector3 0 0 0, fRotationMatrix = rotm\<rparr>
     in TGeoHMatrix_mul rotA (StTpcSuperSectorPosition cfg (sector - 1)))"

text \<open>Lines 299-354: the \<^verbatim>\<open>switch\<close> over the stage of a sector 1..24.\<close>

definition stage_rotA :: "CoordTransform \<Rightarrow> int \<Rightarrow> int \<Rightarrow> error + TGeoHMatrix" where
  "stage_rotA ct sector k =
    (if k = kSupS2Tpc then Inr (SupS2Tpc_rotA (ct_cfg ct) sector)
     else if k = kSupS2Glob then mul_e (Inr (ct_tpc2global ct)) (SupS2Tpc ct sector)
     else if k = kSubSInner2SupS then Inr flip_matrix
     else if k = kSubSOuter2SupS
       then Inr (TGeoHMatrix_mul flip_matrix (StTpcOuterSectorPosition (ct_cfg ct) (sector - 1)))
     else if k = kSubSInner2Tpc then mul_e (SupS2Tpc ct sector) (SubSInner2SupS ct sector)
     else if k = kSubSOuter2Tpc then mul_e (SupS2Tpc ct sector) (SubSOuter2SupS ct sector)
     else if k = kSubSInner2Glob then mul_e (Inr (ct_tpc2global ct)) (SubSInner2Tpc ct sector)
     else if k = kSubSOuter2Glob then mul_e (Inr (ct_tpc2global ct)) (SubSOuter2Tpc ct sector)
     else if k = kPadInner2SupS then SubSInner2SupS ct sector
     else if k = kPadOuter2SupS then SubSOuter2SupS ct sector
     else if k = kPadInner2Tpc then mul_e (SupS2Tpc ct sector) (PadInner2SupS ct sector)
     else if k = kPadOuter2Tpc then mul_e (SupS2Tpc ct sector) (PadOuter2SupS ct sector)
     else if k = kPadInner2Glob then mul_e (Inr (ct_tpc2global ct)) (PadInner2Tpc ct sector)
     else if k = kPadOuter2Glob then mul_e (Inr (ct_tpc2global ct)) (PadOuter2Tpc ct sector)
     else Inl AssertionFailed)"

text \<open>
  Lines 283-403: one pass of the inner loop. The transform is computed, re-orthonormalised
  and stored: in \<open>tpc2global_\<close> for sector 0, in its slot of \<open>sector_rotations_\<close> otherwise.
\<close>

definition SetTpcRotations_step :: "CoordTransform \<Rightarrow> int \<Rightarrow> int \<Rightarrow> error + CoordTransform" where
  "SetTpcRotations_step ct sector k =
    (case (if sector = 0 then Inr (tpc_reference_system (ct_cfg ct)) else stage_rotA ct sector k) of
       Inl e \<Rightarrow> Inl e
     | Inr rotA \<Rightarrow>
        (let rotA = Normalize rotA;
             i = kTotalTpcSectorRotaions * (sector - 1) + k
         in if sector = 0 then Inr (ct\<lparr>ct_tpc2global := rotA\<rparr>)
            else if 0 \<le> i \<and> i < int (length (ct_sector_rotations ct))
                 then Inr (ct\<lparr>ct_sector_rotations := (ct_sector_rotations ct)[nat i := rotA]\<rparr>)
                 else Inl OutOfBounds))"

text \<open>A loop that stops at the first failure.\<close>

primrec foldE :: "('s \<Rightarrow> 'a \<Rightarrow> error + 's) \<Rightarrow> 'a list \<Rightarrow> 's \<Rightarrow> error + 's" where
  "foldE f [] s = Inr s"
| "foldE f (x # xs) s = (case f s x of Inl e \<Rightarrow> Inl e | Inr s' \<Rightarrow> foldE f xs s')"

text \<open>Lines 274-282 and 404-405: the loop over the stages of one sector.\<close>

definition SetTpcRotations_sector :: "int \<Rightarrow> CoordTransform \<Rightarrow> int \<Rightarrow> error + CoordTransform" where
  "SetTpcRotations_sector kUndefSector ct sector =
    (let k1 = (if sector = 0 then kUndefSector else kSupS2Tpc);
         k2 = (if sector = 0 then kSupS2Tpc else kTotalTpcSectorRotaions)
     in foldE (\<lambda>ct k. SetTpcRotations_step ct sector k) [k1..k2 - 1] ct)"

text \<open>\<^verbatim>\<open>CoordTransform::SetTpcRotations\<close> (lines 229-406): the loop over the sectors 0..24.\<close>

definition SetTpcRotations :: "int \<Rightarrow> CoordTransform \<Rightarrow> error + CoordTransform" where
  "SetTpcRotations kUndefSector ct = foldE (SetTpcRotations_sector kUndefSector) [0..24] ct"

text \<open>
  The constructor (lines 42-51): \<open>tpc2global_\<close> starts as the identity, the cache as
  \<open>12 * 2 * kTotalTpcSectorRotaions\<close> identities.
\<close>

definition CoordTransform_new :: "int \<Rightarrow> Configurator \<Rightarrow> error + CoordTransform" where
  "CoordTransform_new kUndefSector cfg =
    SetTpcRotations kUndefSector
      \<lparr>ct_cfg = cfg,
       ct_timebin_width = 1000000 / frequency (S_starClockOnl cfg),
       ct_z_inner_offset = z_inner_offset (S_tpcEffectiveGeom cfg),
       ct_z_outer_offset = z_outer_offset (S_tpcEffectiveGeom cfg),
       ct_tpc2global = TGeoHMatrix_identity,
       ct_sector_rotations = replicate (nat (12 * 2 * kTotalTpcSectorRotaions)) TGeoHMatrix_identity\<rparr>"

subsection \<open>Local sector coordinate, pad coordinate and local coordinate\<close>

text \<open>
  \<^verbatim>\<open>CoordTransform::hardware_to_local_sector\<close> (lines 70-77). \<open>TimeToZ\<close> takes the pad as
  an \<^verbatim>\<open>int\<close>: the conversion of a \<^verbatim>\<open>double\<close> drops the fraction (a pad beyond the range
  of an \<^verbatim>\<open>int\<close> is not modelled; \<open>TimeToZ\<close> does not use the pad).
\<close>

definition int_of_double :: "real \<Rightarrow> int" where
  "int_of_double r = (if 0 \<le> r then \<lfloor>r\<rfloor> else \<lceil>r\<rceil>)"

definition hardware_to_local_sector ::
  "CoordTransform \<Rightarrow> StTpcPadCoordinate \<Rightarrow> error + StTpcLocalSectorCoordinate" where
  "hardware_to_local_sector ct a =
    (let x = PadToX ct (pc_sector a) (pc_row a) (pc_pad a);
         y = RadialDistanceAtRow (ct_cfg ct) (pc_row a);
         zoffset = (if pc_row a > innerPadRows (S_tpcPadPlanes (ct_cfg ct))
                    then ct_z_outer_offset ct else ct_z_inner_offset ct)
     in case TimeToZ ct (pc_timeBucket a) (pc_sector a) (pc_row a) (int_of_double (pc_pad a)) of
          Inl e \<Rightarrow> Inl e
        | Inr z0 \<Rightarrow>
           Inr \<lparr>ls_position = \<lparr>coord_x = x, coord_y = y, coord_z = z0 - zoffset\<rparr>,
                ls_sector = pc_sector a, ls_row = pc_row a\<rparr>)"

text \<open>
  \<^verbatim>\<open>StTpcLocalCoordinate\<close> (header \<^verbatim>\<open>tpcrs/detail/coords.h\<close>, not under \<^verbatim>\<open>src/\<close>), with
  the fields that lines 190-226 read and write, and the three numbers \<^verbatim>\<open>xyz()\<close> of a
  \<^verbatim>\<open>Coords\<close> as a vector.
\<close>

record StTpcLocalCoordinate =
  lc_position :: Coords
  lc_sector :: int
  lc_row :: int

definition xyz :: "Coords \<Rightarrow> TVector3" where
  "xyz c = TVector3 (coord_x c) (coord_y c) (coord_z c)"

definition Coords_of :: "TVector3 \<Rightarrow> Coords" where
  "Coords_of v = \<lparr>coord_x = vx v, coord_y = vy v, coord_z = vz v\<rparr>"

text \<open>
  Modelled from the spec: the accessor \<^verbatim>\<open>Pad2Tpc(sector, row)\<close> is declared in the header,
  not under \<^verbatim>\<open>src/\<close>. It reads the cached transform from the pad frame of a row to the
  chamber frame: the stage \<open>PadInner\<rightarrow>Tpc\<close> for a row of the inner sub-sector, the stage
  \<open>PadOuter\<rightarrow>Tpc\<close> otherwise.
\<close>

definition Pad2Tpc :: "CoordTransform \<Rightarrow> int \<Rightarrow> int \<Rightarrow> error + TGeoHMatrix" where
  "Pad2Tpc ct sector row =
     TpcRot ct sector (if row \<le> innerPadRows (S_tpcPadPlanes (ct_cfg ct)) then kPadInner2Tpc
                       else kPadOuter2Tpc)"

text \<open>
  Modelled from the spec: a rigid transform applied to a point, in the operations of the
  external geometry library that lines 199-202 and 214-222 call. \<^verbatim>\<open>LocalToMasterVect\<close>
  applies the rotation of a transform and \<^verbatim>\<open>MasterToLocalVect\<close> its transpose; on a
  pure translation \<^verbatim>\<open>LocalToMaster\<close> adds the translation and \<^verbatim>\<open>MasterToLocal\<close>
  subtracts it.
\<close>

definition LocalToMasterVect :: "TGeoHMatrix \<Rightarrow> TVector3 \<Rightarrow> TVector3" where
  "LocalToMasterVect m local = mat_vec (fRotationMatrix m) local"

definition MasterToLocalVect :: "TGeoHMatrix \<Rightarrow> TVector3 \<Rightarrow> TVector3" where
  "MasterToLocalVect m master =
    (let r = fRotationMatrix m
     in TVector3 (vx master * r0 r + vy master * r3 r + vz master * r6 r)
                 (vx master * r1 r + vy master * r4 r + vz master * r7 r)
                 (vx master * r2 r + vy master * r5 r + vz master * r8 r))"

definition TGeoTranslation_LocalToMaster :: "TGeoHMatrix \<Rightarrow> TVector3 \<Rightarrow> TVector3" where
  "TGeoTranslation_LocalToMaster t local = vadd local (fTranslation t)"

definition TGeoTranslation_MasterToLocal :: "TGeoHMatrix \<Rightarrow> TVector3 \<Rightarrow> TVector3" where
  "TGeoTranslation_MasterToLocal t master = vadd master (scale (- 1) (fTranslation t))"

text \<open>
  \<^verbatim>\<open>CoordTransform::local_sector_to_local\<close> (lines 190-205): the cached transform of the
  row is read and applied, its rotation first, then its translation.
\<close>

definition local_sector_to_local ::
  "CoordTransform \<Rightarrow> YToRow_static \<Rightarrow> StTpcLocalSectorCoordinate
    \<Rightarrow> (error + StTpcLocalCoordinate) \<times> YToRow_static" where
  "local_sector_to_local ct st a =
    (let planes = S_tpcPadPlanes (ct_cfg ct);
         (r, st1) = (if ls_row a < 1 \<or> ls_row a > padRows planes
                     then YToRow ct st (coord_y (ls_position a)) (ls_sector a)
                     else (Inr (ls_row a), st))
     in case r of
          Inl e \<Rightarrow> (Inl e, st1)
        | Inr row \<Rightarrow>
           (case Pad2Tpc ct (ls_sector a) row of
              Inl e \<Rightarrow> (Inl e, st1)
            | Inr m \<Rightarrow>
               (let xGG = LocalToMasterVect m (xyz (ls_position a));
                    trans = fTranslation m;
                    GG2TPC = TGeoTranslation (vx trans) (vy trans) (vz trans)
                in (Inr \<lparr>lc_position = Coords_of (TGeoTranslation_LocalToMaster GG2TPC xGG),
                         lc_sector = ls_sector a, lc_row = row\<rparr>, st1))))"

text \<open>
  \<^verbatim>\<open>CoordTransform::local_to_local_sector\<close> (lines 208-226): for a row out of range the
  cached \<open>SupS\<rightarrow>Tpc\<close> is read to find the row; the cached transform of the row is read and
  inverted, its translation first, then its rotation.
\<close>

definition local_to_local_sector ::
  "CoordTransform \<Rightarrow> YToRow_static \<Rightarrow> StTpcLocalCoordinate
    \<Rightarrow> (error + StTpcLocalSectorCoordinate) \<times> YToRow_static" where
  "local_to_local_sector ct st a =
    (let planes = S_tpcPadPlanes (ct_cfg ct);
         (r, st1) = (if lc_row a < 1 \<or> lc_row a > padRows planes
                     then (case SupS2Tpc ct (lc_sector a) of
                             Inl e \<Rightarrow> (Inl e, st)
                           | Inr s \<Rightarrow>
                              (let xyzS = MasterToLocalVect s (xyz (lc_position a))
                               in YToRow ct st (vx xyzS) (lc_sector a)))
                     else (Inr (lc_row a), st))
     in case r of
          Inl e \<Rightarrow> (Inl e, st1)
        | Inr row \<Rightarrow>
           (case Pad2Tpc ct (lc_sector a) row of
              Inl e \<Rightarrow> (Inl e, st1)
            | Inr m \<Rightarrow>
               (let trans = fTranslation m;
                    GG2TPC = TGeoTranslation (vx trans) (vy trans) (vz trans);
                    xGG = TGeoTranslation_MasterToLocal GG2TPC (xyz (lc_position a))
                in (Inr \<lparr>ls_position = Coords_of (MasterToLocalVect m xGG),
                         ls_sector = lc_sector a, ls_row = row\<rparr>, st1))))"

section \<open>The helix\<close>

text \<open>
  A \<^verbatim>\<open>double\<close> as \<^verbatim>\<open>StHelix::bad\<close> sees it: a finite number, an infinity or a NaN.
  Comparisons with a NaN are false; the sign of a zero is not modelled (a zero divisor
  is taken as \<open>+0\<close>).
\<close>

datatype double = Finite real | PosInf | NegInf | NaN

fun d_finite :: "double \<Rightarrow> bool" where
  "d_finite (Finite r) = True"
| "d_finite _ = False"

fun d_abs :: "double \<Rightarrow> double" where
  "d_abs (Finite r) = Finite \<bar>r\<bar>"
| "d_abs PosInf = PosInf"
| "d_abs NegInf = PosInf"
| "d_abs NaN = NaN"

fun d_sub :: "double \<Rightarrow> double \<Rightarrow> double" where
  "d_sub (Finite a) (Finite b) = Finite (a - b)"
| "d_sub NaN _ = NaN"
| "d_sub _ NaN = NaN"
| "d_sub PosInf PosInf = NaN"
| "d_sub NegInf NegInf = NaN"
| "d_sub PosInf _ = PosInf"
| "d_sub NegInf _ = NegInf"
| "d_sub (Finite a) PosInf = NegInf"
| "d_sub (Finite a) NegInf = PosInf"

fun d_div :: "double \<Rightarrow> double \<Rightarrow> double" where
  "d_div (Finite a) (Finite b) =
     (if b \<noteq> 0 then Finite (a / b)
      else if a = 0 then NaN else if 0 < a then PosInf else NegInf)"
| "d_div NaN _ = NaN"
| "d_div _ NaN = NaN"
| "d_div (Finite a) _ = Finite 0"
| "d_div PosInf (Finite b) = (if 0 \<le> b then PosInf else NegInf)"
| "d_div NegInf (Finite b) = (if 0 \<le> b then NegInf else PosInf)"
| "d_div _ _ = NaN"

fun d_less :: "double \<Rightarrow> double \<Rightarrow> bool" where
  "d_less (Finite a) (Finite b) = (a < b)"
| "d_less NaN _ = False"
| "d_less _ NaN = False"
| "d_less _ NegInf = False"
| "d_less PosInf _ = False"
| "d_less _ _ = True"

text \<open>
  \<^verbatim>\<open>StThreeVector<double>\<close> (header not under \<^verbatim>\<open>src/\<close>) and the members of
  \<^verbatim>\<open>StHelix\<close> (StHelix.hh, lines 101-112), over the type \<open>'d\<close> of their numbers: \<^typ>\<open>real\<close>
  for the geometry, \<^typ>\<open>double\<close> for the validity check.
\<close>

record 'd StThreeVector =
  mX1 :: 'd
  mX2 :: 'd
  mX3 :: 'd

record 'd StHelix =
  mSingularity :: bool
  mOrigin :: "'d StThreeVector"
  mDipAngle :: 'd
  mCurvature :: 'd
  mPhase :: 'd
  mH :: int
  mCosDipAngle :: 'd
  mSinDipAngle :: 'd
  mCosPhase :: 'd
  mSinPhase :: 'd

text \<open>\<^verbatim>\<open>StHelix::x\<close>, \<^verbatim>\<open>StHelix::y\<close>, \<^verbatim>\<open>StHelix::z\<close> (lines 133-152) and \<^verbatim>\<open>StHelix::at\<close> (lines 177-180).\<close>

definition helix_x :: "real StHelix \<Rightarrow> real \<Rightarrow> real" where
  "helix_x h s =
    (if mSingularity h then mX1 (mOrigin h) - s * mCosDipAngle h * mSinPhase h
     else mX1 (mOrigin h)
          + (cos (mPhase h + s * real_of_int (mH h) * mCurvature h * mCosDipAngle h) - mCosPhase h)
            / mCurvature h)"

definition helix_y :: "real StHelix \<Rightarrow> real \<Rightarrow> real" where
  "helix_y h s =
    (if mSingularity h then mX2 (mOrigin h) + s * mCosDipAngle h * mCosPhase h
     else mX2 (mOrigin h)
          + (sin (mPhase h + s * real_of_int (mH h) * mCurvature h * mCosDipAngle h) - mSinPhase h)
            / mCurvature h)"

definition helix_z :: "real StHelix \<Rightarrow> real \<Rightarrow> real" where
  "helix_z h s = mX3 (mOrigin h) + s * mSinDipAngle h"

definition helix_at :: "real StHelix \<Rightarrow> real \<Rightarrow> real StThreeVector" where
  "helix_at h s = \<lparr>mX1 = helix_x h s, mX2 = helix_y h s, mX3 = helix_z h s\<rparr>"

text \<open>
  \<^verbatim>\<open>StHelix::bad\<close> (lines 191-217). \<^verbatim>\<open>StThreeVector::bad\<close>, which checks the origin, is
  not under \<^verbatim>\<open>src/\<close> and is the parameter \<open>origin_bad\<close>. \<^verbatim>\<open>M_PI\<close> is \<open>pi\<close>.
\<close>

definition bad ::
  "(double StThreeVector \<Rightarrow> double \<Rightarrow> int) \<Rightarrow> double StHelix \<Rightarrow> double \<Rightarrow> int" where
  "bad origin_bad h WorldSize =
    (if \<not> d_finite (mDipAngle h) then 11
     else if \<not> d_finite (mCurvature h) then 12
     else let ierr = origin_bad (mOrigin h) WorldSize
     in if ierr \<noteq> 0 then 3 + ierr * 100
     else if d_less (Finite 1.58) (d_abs (mDipAngle h)) then 21
     else let qwe = d_abs (d_sub (d_abs (mDipAngle h)) (d_div (Finite pi) (Finite 2)))
     in if d_less qwe (d_div (Finite 1) WorldSize) then 31
     else if d_less WorldSize (d_abs (mCurvature h)) then 22
     else if d_less (mCurvature h) (Finite 0) then 32
     else if \<bar>mH h\<bar> \<noteq> 1 then 24
     else 0)"

section \<open>A calibration fixture\<close>

text \<open>
  A small detector for the concrete instances below: four pad rows, two of them inner,
  the inner pad pitch 0.335 cm of the end-to-end example, identity alignment.
\<close>

definition fixture_cfg :: Configurator where
  "fixture_cfg =
    \<lparr>S_tpcPadPlanes = \<lparr>padRows = 4, innerPadRows = 2, innerSectorPadPitch = 0.335,
                        outerSectorPadPitch = 0.67, outerSectorPadPlaneZ = 210\<rparr>,
     S_tpcWirePlanes = \<lparr>outerSectorGatingGridPadSep = 1\<rparr>,
     S_starClockOnl = \<lparr>frequency = 10000000\<rparr>,
     S_tpcEffectiveGeom = \<lparr>z_inner_offset = 0.25, z_outer_offset = 0.5\<rparr>,
     S_trgTimeOffset = \<lparr>offset = 2\<rparr>,
     S_tpcElectronics = \<lparr>tZero = 1\<rparr>,
     S_tpcPadrowT0 = replicate 24 \<lparr>T0 = [0.1, 0.2, 0.3, 0.4]\<rparr>,
     S_tpcSectorT0offset = \<lparr>t0 = replicate 48 0.5\<rparr>,
     S_tpcGlobalPosition = \<lparr>PhiXZ_geom = 0, PhiYZ_geom = 0, LocalxShift = 0, LocalyShift = 0,
                            LocalzShift = 0\<rparr>,
     StTpcSuperSectorPosition = (\<lambda>i. TGeoHMatrix_identity),
     StTpcOuterSectorPosition = (\<lambda>i. TGeoHMatrix_identity),
     NumberOfPads = (\<lambda>row. if row \<le> 2 then 88 else 98),
     RadialDistanceAtRow = (\<lambda>row. 60 + 2 * real_of_int row),
     IsInner = (\<lambda>row. row \<le> 2),
     DriftVelocity = (\<lambda>sector. 5.5)\<rparr>"

definition fixture_ct :: CoordTransform where
  "fixture_ct =
    \<lparr>ct_cfg = fixture_cfg,
     ct_timebin_width = 1000000 / frequency (S_starClockOnl fixture_cfg),
     ct_z_inner_offset = z_inner_offset (S_tpcEffectiveGeom fixture_cfg),
     ct_z_outer_offset = z_outer_offset (S_tpcEffectiveGeom fixture_cfg),
     ct_tpc2global = TGeoHMatrix_identity,
     ct_sector_rotations = replicate 336 TGeoHMatrix_identity\<rparr>"

text \<open>A local sector coordinate whose row, 99, is not a row of the fixture.\<close>

definition fixture_ls :: StTpcLocalSectorCoordinate where
  "fixture_ls =
    \<lparr>ls_position = \<lparr>coord_x = 1, coord_y = 62, coord_z = 10\<rparr>, ls_sector = 1, ls_row = 99\<rparr>"

text \<open>The helix of the helix example: curvature 0.01, dip angle 0.1, phase 0, origin 0, h = -1.\<close>

definition fixture_helix :: "real StHelix" where
  "fixture_helix =
    \<lparr>mSingularity = False, mOrigin = \<lparr>mX1 = 0, mX2 = 0, mX3 = 0\<rparr>,
     mDipAngle = 0.1, mCurvature = 0.01, mPhase = 0, mH = - 1,
     mCosDipAngle = cos 0.1, mSinDipAngle = sin 0.1, mCosPhase = 1, mSinPhase = 0\<rparr>"

definition fixture_helix_d :: "double StHelix" where
  "fixture_helix_d =
    \<lparr>mSingularity = False, mOrigin = \<lparr>mX1 = Finite 0, mX2 = Finite 0, mX3 = Finite 0\<rparr>,
     mDipAngle = Finite 0.1, mCurvature = Finite 0.01, mPhase = Finite 0, mH = - 1,
     mCosDipAngle = Finite (cos 0.1), mSinDipAngle = Finite (sin 0.1),
     mCosPhase = Finite 1, mSinPhase = Finite 0\<rparr>"

text \<open>
  The fixture with alignment matrices that are rigid and not the identity: every
  super-sector is turned about the chamber axis by the angle whose cosine is 4/5 and
  shifted by \<open>(1, 2, 3)\<close>, every outer sub-sector is turned about the x axis by the same
  angle and shifted by \<open>(0.1, 0, 0)\<close>.
\<close>

definition misaligned_cfg :: Configurator where
  "misaligned_cfg =
    fixture_cfg
      \<lparr>StTpcSuperSectorPosition :=
         (\<lambda>i. \<lparr>fTranslation = TVector3 1 2 3,
                fRotationMatrix = Rotation (4 / 5) (- (3 / 5)) 0 (3 / 5) (4 / 5) 0 0 0 1\<rparr>),
       StTpcOuterSectorPosition :=
         (\<lambda>i. \<lparr>fTranslation = TVector3 (1 / 10) 0 0,
                fRotationMatrix = Rotation 1 0 0 0 (4 / 5) (- (3 / 5)) 0 (3 / 5) (4 / 5)\<rparr>)\<rparr>"

section \<open>Notions used in the properties\<close>

subsection \<open>Row lookup\<close>

text \<open>
  The statics as a call of \<open>YToRow\<close> can find them: untouched, or holding a table of
  \<open>Nrows + 1\<close> boundaries.
\<close>

definition YToRow_static_ok :: "YToRow_static \<Rightarrow> bool" where
  "YToRow_static_ok st \<longleftrightarrow>
     (Nrows st = 0 \<and> Radii st = None)
     \<or> (\<exists>radii. Radii st = Some radii \<and> int (length radii) = Nrows st + 1)"

text \<open>The row picked from a table, and the table a call uses (proof devices).\<close>

definition pick_row :: "int \<Rightarrow> real list \<Rightarrow> real \<Rightarrow> int" where
  "pick_row n radii y =
    (let r_ptr = int (lower_bound radii 0 (nat (n + 1)) y);
         row = (if r_ptr \<noteq> n + 1 \<and> radii ! nat r_ptr = y then r_ptr + 1 else r_ptr);
         row = (if row \<le> 0 then 1 else row);
         row = (if row > n then n else row)
     in row)"

definition used_table :: "CoordTransform \<Rightarrow> YToRow_static \<Rightarrow> real list" where
  "used_table ct st =
    (if Nrows st \<noteq> padRows (S_tpcPadPlanes (ct_cfg ct))
     then build_Radii (ct_cfg ct) (padRows (S_tpcPadPlanes (ct_cfg ct)))
     else the (Radii st))"

subsection \<open>Orthonormal rotations\<close>

text \<open>A rotation matrix is orthonormal when its columns are unit vectors orthogonal to each other.\<close>

definition orthonormal :: "Rotation \<Rightarrow> bool" where
  "orthonormal r \<longleftrightarrow>
     r0 r * r0 r + r3 r * r3 r + r6 r * r6 r = 1
   \<and> r1 r * r1 r + r4 r * r4 r + r7 r * r7 r = 1
   \<and> r2 r * r2 r + r5 r * r5 r + r8 r * r8 r = 1
   \<and> r0 r * r1 r + r3 r * r4 r + r6 r * r7 r = 0
   \<and> r0 r * r2 r + r3 r * r5 r + r6 r * r8 r = 0
   \<and> r1 r * r2 r + r4 r * r5 r + r7 r * r8 r = 0"

text \<open>The columns of a rotation matrix.\<close>

definition col0 :: "Rotation \<Rightarrow> TVector3" where "col0 r = TVector3 (r0 r) (r3 r) (r6 r)"
definition col1 :: "Rotation \<Rightarrow> TVector3" where "col1 r = TVector3 (r1 r) (r4 r) (r7 r)"
definition col2 :: "Rotation \<Rightarrow> TVector3" where "col2 r = TVector3 (r2 r) (r5 r) (r8 r)"

subsection \<open>The stored stages\<close>

text \<open>
  The transform stored for stage \<open>k\<close> of a sector, as a function of the calibration and
  of the transform \<open>g\<close> of the whole chamber (a proof device).
\<close>

definition stored_stage :: "Configurator \<Rightarrow> TGeoHMatrix \<Rightarrow> int \<Rightarrow> int \<Rightarrow> TGeoHMatrix" where
  "stored_stage cfg g sector k =
    (let e0 = Normalize (SupS2Tpc_rotA cfg sector);
         e2 = Normalize flip_matrix;
         e3 = Normalize (TGeoHMatrix_mul flip_matrix (StTpcOuterSectorPosition cfg (sector - 1)));
         e4 = Normalize (TGeoHMatrix_mul e0 e2);
         e5 = Normalize (TGeoHMatrix_mul e0 e3);
         e8 = Normalize e2;
         e9 = Normalize e3;
         e10 = Normalize (TGeoHMatrix_mul e0 e8);
         e11 = Normalize (TGeoHMatrix_mul e0 e9)
     in if k = 0 then e0
        else if k = 1 then Normalize (TGeoHMatrix_mul g e0)
        else if k = 2 then e2
        else if k = 3 then e3
        else if k = 4 then e4
        else if k = 5 then e5
        else if k = 6 then Normalize (TGeoHMatrix_mul g e4)
        else if k = 7 then Normalize (TGeoHMatrix_mul g e5)
        else if k = 8 then e8
        else if k = 9 then e9
        else if k = 10 then e10
        else if k = 11 then e11
        else if k = 12 then Normalize (TGeoHMatrix_mul g e10)
        else Normalize (TGeoHMatrix_mul g e11))"

text \<open>The fourteen slots of sector \<open>m + 1\<close> hold the stored stages.\<close>

definition sector_stored :: "TGeoHMatrix list \<Rightarrow> Configurator \<Rightarrow> TGeoHMatrix \<Rightarrow> nat \<Rightarrow> bool" where
  "sector_stored rots cfg g m \<longleftrightarrow>
      rots ! (14 * m) = stored_stage cfg g (int m + 1) 0
    \<and> rots ! (14 * m + 1) = stored_stage cfg g (int m + 1) 1
    \<and> rots ! (14 * m + 2) = stored_stage cfg g (int m + 1) 2
    \<and> rots ! (14 * m + 3) = stored_stage cfg g (int m + 1) 3
    \<and> rots ! (14 * m + 4) = stored_stage cfg g (int m + 1) 4
    \<and> rots ! (14 * m + 5) = stored_stage cfg g (int m + 1) 5
    \<and> rots ! (14 * m + 6) = stored_stage cfg g (int m + 1) 6
    \<and> rots ! (14 * m + 7) = stored_stage cfg g (int m + 1) 7
    \<and> rots ! (14 * m + 8) = stored_stage cfg g (int m + 1) 8
    \<and> rots ! (14 * m + 9) = stored_stage cfg g (int m + 1) 9
    \<and> rots ! (14 * m + 10) = stored_stage cfg g (int m + 1) 10
    \<and> rots ! (14 * m + 11) = stored_stage cfg g (int m + 1) 11
    \<and> rots ! (14 * m + 12) = stored_stage cfg g (int m + 1) 12
    \<and> rots ! (14 * m + 13) = stored_stage cfg g (int m + 1) 13"

text \<open>
  The passes through the body of the two loops of \<open>SetTpcRotations\<close> (lines 274-405), in
  the order in which they are run: the pairs of a sector and a stage.
\<close>

definition SetTpcRotations_passes :: "int \<Rightarrow> (int \<times> int) list" where
  "SetTpcRotations_passes kUndefSector =
     concat (map (\<lambda>sector. map (Pair sector)
                    [(if sector = 0 then kUndefSector else kSupS2Tpc)
                     .. (if sector = 0 then kSupS2Tpc else kTotalTpcSectorRotaions) - 1])
                 [0..24])"

text \<open>The transform of the whole chamber after the construction.\<close>

definition built_tpc2global :: "int \<Rightarrow> CoordTransform \<Rightarrow> TGeoHMatrix" where
  "built_tpc2global kU ct =
    (if kU \<le> kSupS2Tpc - 1 then Normalize (tpc_reference_system (ct_cfg ct)) else ct_tpc2global ct)"

text \<open>The transform of the whole chamber that the constructor leaves in \<open>tpc2global_\<close>.\<close>

definition new_tpc2global :: "int \<Rightarrow> Configurator \<Rightarrow> TGeoHMatrix" where
  "new_tpc2global kU cfg =
    (if kU \<le> kSupS2Tpc - 1 then Normalize (tpc_reference_system cfg) else TGeoHMatrix_identity)"

subsection \<open>Calls of the conversions\<close>

text \<open>
  A client calls the conversions on a constructed transform, in any order. The
  conversions of \<^verbatim>\<open>coords.cpp\<close> (lines 55-226) are \<^verbatim>\<open>const\<close> member functions and none of
  their bodies assigns to a member, so the object a conversion is called on is the object
  after the call; the statics of \<open>YToRow\<close> are the only state that a call changes. A
  \<open>conversion\<close> names a member function with its arguments; \<open>call\<close> runs one and returns
  its outcome with the transform and the statics after it, \<open>calls\<close> runs a sequence.
\<close>

datatype conversion =
    XToPad_of real int int
  | PadToX_of int int real
  | TimeToZ_of real int int int
  | ZToTime_of real int int int
  | YToRow_of real int
  | local_sector_to_hardware_of StTpcLocalSectorCoordinate
  | hardware_to_local_sector_of StTpcPadCoordinate
  | local_sector_to_local_of StTpcLocalSectorCoordinate
  | local_to_local_sector_of StTpcLocalCoordinate

datatype outcome =
    Number "error + real"
  | Row "error + int"
  | Pad_coordinate "error + StTpcPadCoordinate"
  | Local_sector_coordinate "error + StTpcLocalSectorCoordinate"
  | Local_coordinate "error + StTpcLocalCoordinate"

fun call :: "CoordTransform \<Rightarrow> YToRow_static \<Rightarrow> conversion
              \<Rightarrow> outcome \<times> CoordTransform \<times> YToRow_static" where
  "call ct st (XToPad_of x sector row) = (Number (Inr (XToPad ct x sector row)), ct, st)"
| "call ct st (PadToX_of sector row pad) = (Number (Inr (PadToX ct sector row pad)), ct, st)"
| "call ct st (TimeToZ_of tb sector row pad) = (Number (TimeToZ ct tb sector row pad), ct, st)"
| "call ct st (ZToTime_of z sector row pad) = (Number (ZToTime ct z sector row pad), ct, st)"
| "call ct st (YToRow_of y sector) = (let (r, st1) = YToRow ct st y sector in (Row r, ct, st1))"
| "call ct st (local_sector_to_hardware_of a) =
     (let (r, st1) = local_sector_to_hardware ct st a in (Pad_coordinate r, ct, st1))"
| "call ct st (hardware_to_local_sector_of a) =
     (Local_sector_coordinate (hardware_to_local_sector ct a), ct, st)"
| "call ct st (local_sector_to_local_of a) =
     (let (r, st1) = local_sector_to_local ct st a in (Local_coordinate r, ct, st1))"
| "call ct st (local_to_local_sector_of a) =
     (let (r, st1) = local_to_local_sector ct st a in (Local_sector_coordinate r, ct, st1))"

fun calls :: "CoordTransform \<Rightarrow> YToRow_static \<Rightarrow> conversion list
               \<Rightarrow> outcome list \<times> CoordTransform \<times> YToRow_static" where
  "calls ct st [] = ([], ct, st)"
| "calls ct st (c # cs) =
     (let (r, ct1, st1) = call ct st c;
          (rs, ct2, st2) = calls ct1 st1 cs
      in (r # rs, ct2, st2))"

subsection \<open>The super-sector transform in the words of the specification\<close>

text \<open>
  The in-plane rotation by an angle in degrees, the flip that takes \<open>(x, y, z)\<close> to
  \<open>(x, -y, -z)\<close>, and the composition that the specification gives for \<open>SupS\<rightarrow>Tpc\<close>:
  translation along the chamber axis by the drift distance, rotation (after the flip for
  the sectors 13..24), alignment matrix of the sector.
\<close>

definition in_plane_rotation :: "real \<Rightarrow> TGeoHMatrix" where
  "in_plane_rotation degrees =
    \<lparr>fTranslation = TVector3 0 0 0,
     fRotationMatrix = Rotation (cos (degrees * pi / 180)) (- sin (degrees * pi / 180)) 0
                                (sin (degrees * pi / 180)) (cos (degrees * pi / 180)) 0
                                0 0 1\<rparr>"

definition flip_y_z :: TGeoHMatrix where
  "flip_y_z = \<lparr>fTranslation = TVector3 0 0 0, fRotationMatrix = Rotation 1 0 0 0 (- 1) 0 0 0 (- 1)\<rparr>"

definition drift_distance :: "Configurator \<Rightarrow> real" where
  "drift_distance cfg =
     outerSectorPadPlaneZ (S_tpcPadPlanes cfg) - outerSectorGatingGridPadSep (S_tpcWirePlanes cfg)"

definition SupS2Tpc_composition :: "Configurator \<Rightarrow> int \<Rightarrow> TGeoHMatrix" where
  "SupS2Tpc_composition cfg sector =
    (if sector \<le> 12
     then TGeoHMatrix_mul
            (TGeoHMatrix_mul (TGeoTranslation 0 0 (drift_distance cfg))
               (in_plane_rotation (real_of_int ((360 + 90 - 30 * sector) mod 360))))
            (StTpcSuperSectorPosition cfg (sector - 1))
     else TGeoHMatrix_mul
            (TGeoHMatrix_mul (TGeoTranslation 0 0 (- drift_distance cfg))
               (TGeoHMatrix_mul (in_plane_rotation (real_of_int ((90 + 30 * (sector - 12)) mod 360)))
                  flip_y_z))
            (StTpcSuperSectorPosition cfg (sector - 1)))"

section \<open>Collections of defining equations\<close>

lemmas stage_defs = kSupS2Tpc_def kSupS2Glob_def kSubSInner2SupS_def kSubSOuter2SupS_def
  kSubSInner2Tpc_def kSubSOuter2Tpc_def kSubSInner2Glob_def kSubSOuter2Glob_def
  kPadInner2SupS_def kPadOuter2SupS_def kPadInner2Tpc_def kPadOuter2Tpc_def
  kPadInner2Glob_def kPadOuter2Glob_def kTotalTpcSectorRotaions_def

lemmas accessor_defs = SupS2Tpc_def SupS2Glob_def SubSInner2SupS_def SubSOuter2SupS_def
  SubSInner2Tpc_def SubSOuter2Tpc_def SubSInner2Glob_def SubSOuter2Glob_def
  PadInner2SupS_def PadOuter2SupS_def PadInner2Tpc_def PadOuter2Tpc_def
  PadInner2Glob_def PadOuter2Glob_def

lemmas fixture_defs = fixture_ct_def fixture_cfg_def TGeoHMatrix_identity_def fixture_ls_def

section \<open>Properties of the pad and time conversions\<close>

lemma at_index_in_range:
  "0 \<le> i \<Longrightarrow> i < int (length xs) \<Longrightarrow> at_index xs i = Inr (xs ! nat i)"
  by (simp add: at_index_def)

lemma at_index_negative: "i < 0 \<Longrightarrow> at_index xs i = Inl OutOfBounds"
  by (simp add: at_index_def)

text \<open>
  Claim C7. The pad returned by \<open>XToPad\<close> is at least 0.500001: it is 0.500001 when
  the linear formula \<open>(npads + 1) / 2 - x / pitch\<close> (pad count and pitch of the row,
  clamped from above to \<open>padRows\<close>) is below 0.500001, and the value of the formula
  otherwise.
\<close>

theorem XToPad_min:
  "(let planes = S_tpcPadPlanes (ct_cfg ct);
        row' = (if row > padRows planes then padRows planes else row);
        pitch = (if row' \<le> innerPadRows planes then innerSectorPadPitch planes
                 else outerSectorPadPitch planes);
        linear = (real_of_int (NumberOfPads (ct_cfg ct) row') + 1) / 2 - x / pitch
    in 0.500001 \<le> XToPad ct x sector row
       \<and> (linear < 0.500001 \<longrightarrow> XToPad ct x sector row = 0.500001)
       \<and> (\<not> linear < 0.500001 \<longrightarrow> XToPad ct x sector row = linear))"
  by (simp add: XToPad_def Let_def)

theorem XToPad_min_witness:
  "0.500001 \<le> XToPad fixture_ct 100 1 1 \<and> XToPad fixture_ct 100 1 1 = 0.500001
   \<and> XToPad fixture_ct 1 1 4 = 99 / 2 - 1 / 0.67"
  using XToPad_min [of fixture_ct 1 100 1] XToPad_min [of fixture_ct 4 1 1]
  by (simp add: fixture_defs Let_def)

subsection \<open>Round trips\<close>

lemma XToPad_PadToX:
  assumes "(if (if row > padRows (S_tpcPadPlanes (ct_cfg ct)) then padRows (S_tpcPadPlanes (ct_cfg ct)) else row)
               \<le> innerPadRows (S_tpcPadPlanes (ct_cfg ct))
            then innerSectorPadPitch (S_tpcPadPlanes (ct_cfg ct))
            else outerSectorPadPitch (S_tpcPadPlanes (ct_cfg ct))) \<noteq> 0"
      and "0.500001 \<le> p"
  shows "XToPad ct (PadToX ct sector row p) sector row = p"
  using assms by (simp add: XToPad_def PadToX_def Let_def split: if_splits)

lemma ZToTime_TimeToZ:
  assumes z: "TimeToZ ct tb sector row pad = Inr z"
      and dv: "DriftVelocity (ct_cfg ct) sector \<noteq> 0"
      and tw: "ct_timebin_width ct \<noteq> 0"
  shows "ZToTime ct z sector row pad = Inr tb"
proof -
  let ?cfg = "ct_cfg ct"
  let ?row = "if row > padRows (S_tpcPadPlanes ?cfg) then padRows (S_tpcPadPlanes ?cfg) else row"
  let ?l = "if IsInner ?cfg ?row then sector + 24 else sector"
  let ?t0 = "\<lambda>sectT0. 0.000001 * offset (S_trgTimeOffset ?cfg) * 1000000 + tZero (S_tpcElectronics ?cfg) + sectT0"
  from z obtain padrowT0 where r1: "at_index (S_tpcPadrowT0 ?cfg) (sector - 1) = Inr padrowT0"
    by (cases "at_index (S_tpcPadrowT0 ?cfg) (sector - 1)") (simp_all add: TimeToZ_def Let_def)
  from z r1 obtain sectT0 where r2: "at_index (T0 padrowT0) (?row - 1) = Inr sectT0"
    by (cases "at_index (T0 padrowT0) (?row - 1)") (simp_all add: TimeToZ_def Let_def)
  from z r1 r2 obtain t0off where r3: "at_index (t0 (S_tpcSectorT0offset ?cfg)) (?l - 1) = Inr t0off"
    by (cases "at_index (t0 (S_tpcSectorT0offset ?cfg)) (?l - 1)")
       (simp_all add: TimeToZ_def Let_def)
  from z r1 r2 r3 have zval:
    "z = DriftVelocity ?cfg sector * 0.000001 * (?t0 sectT0 + (tb + t0off) * ct_timebin_width ct)"
    by (simp add: TimeToZ_def Let_def)
  have "ZToTime ct z sector row pad =
        Inr ((z / (DriftVelocity ?cfg sector * 0.000001) - ?t0 sectT0) / ct_timebin_width ct - t0off)"
    using r1 r2 r3 by (simp add: ZToTime_def Let_def)
  also have "\<dots> = Inr tb"
    using dv tw by (simp add: zval field_simps)
  finally show ?thesis .
qed

lemma TimeToZ_returns:
  assumes "1 \<le> sector" and "1 \<le> row" and "row \<le> padRows (S_tpcPadPlanes (ct_cfg ct))"
    and "sector \<le> int (length (S_tpcPadrowT0 (ct_cfg ct)))"
    and "row \<le> int (length (T0 (S_tpcPadrowT0 (ct_cfg ct) ! nat (sector - 1))))"
    and "sector + 24 \<le> int (length (t0 (S_tpcSectorT0offset (ct_cfg ct))))"
  shows "\<exists>z. TimeToZ ct tb sector row pad = Inr z"
proof -
  let ?cfg = "ct_cfg ct"
  let ?l = "if IsInner ?cfg row then sector + 24 else sector"
  have r1: "at_index (S_tpcPadrowT0 ?cfg) (sector - 1) = Inr (S_tpcPadrowT0 ?cfg ! nat (sector - 1))"
    using assms by (intro at_index_in_range) simp_all
  have r2: "at_index (T0 (S_tpcPadrowT0 ?cfg ! nat (sector - 1))) (row - 1)
            = Inr (T0 (S_tpcPadrowT0 ?cfg ! nat (sector - 1)) ! nat (row - 1))"
    using assms by (intro at_index_in_range) simp_all
  have r3: "at_index (t0 (S_tpcSectorT0offset ?cfg)) (?l - 1)
            = Inr (t0 (S_tpcSectorT0offset ?cfg) ! nat (?l - 1))"
    using assms by (intro at_index_in_range) simp_all
  from assms(3) have row: "(if row > padRows (S_tpcPadPlanes ?cfg) then padRows (S_tpcPadPlanes ?cfg) else row) = row"
    by simp
  show ?thesis
    unfolding TimeToZ_def Let_def row r1 r2 r3 sum.case by (rule exI) (rule refl)
qed

text \<open>
  Claim C1. For a sector in 1..24 and a row in \<open>[1, padRows]\<close>: with a pad pitch of the row
  that is not zero, \<open>XToPad\<close> recovers every pad \<open>p \<ge> 0.500001\<close> from \<open>PadToX\<close>; with a
  drift velocity of the sector that is not zero, \<open>TimeToZ\<close> returns and \<open>ZToTime\<close>
  recovers every time bucket from it. The time-bin width, which the constructor sets to
  \<open>10^6 / frequency\<close>, is not zero, and the calibration tables hold the entries of the
  sector and row.
\<close>

theorem pad_and_time_round_trip:
  assumes "1 \<le> sector" and "sector \<le> 24"
    and "1 \<le> row" and "row \<le> padRows (S_tpcPadPlanes (ct_cfg ct))"
  shows "((if row \<le> innerPadRows (S_tpcPadPlanes (ct_cfg ct))
           then innerSectorPadPitch (S_tpcPadPlanes (ct_cfg ct))
           else outerSectorPadPitch (S_tpcPadPlanes (ct_cfg ct))) \<noteq> 0
          \<and> 0.500001 \<le> p
          \<longrightarrow> XToPad ct (PadToX ct sector row p) sector row = p)
       \<and> (DriftVelocity (ct_cfg ct) sector \<noteq> 0
          \<and> ct_timebin_width ct \<noteq> 0
          \<and> sector \<le> int (length (S_tpcPadrowT0 (ct_cfg ct)))
          \<and> row \<le> int (length (T0 (S_tpcPadrowT0 (ct_cfg ct) ! nat (sector - 1))))
          \<and> sector + 24 \<le> int (length (t0 (S_tpcSectorT0offset (ct_cfg ct))))
          \<longrightarrow> (\<exists>z. TimeToZ ct tb sector row pad = Inr z \<and> ZToTime ct z sector row pad = Inr tb))"
proof (intro conjI impI)
  assume "(if row \<le> innerPadRows (S_tpcPadPlanes (ct_cfg ct))
           then innerSectorPadPitch (S_tpcPadPlanes (ct_cfg ct))
           else outerSectorPadPitch (S_tpcPadPlanes (ct_cfg ct))) \<noteq> 0
          \<and> 0.500001 \<le> p"
  with assms(4) show "XToPad ct (PadToX ct sector row p) sector row = p"
    by (intro XToPad_PadToX) simp_all
next
  assume a: "DriftVelocity (ct_cfg ct) sector \<noteq> 0
          \<and> ct_timebin_width ct \<noteq> 0
          \<and> sector \<le> int (length (S_tpcPadrowT0 (ct_cfg ct)))
          \<and> row \<le> int (length (T0 (S_tpcPadrowT0 (ct_cfg ct) ! nat (sector - 1))))
          \<and> sector + 24 \<le> int (length (t0 (S_tpcSectorT0offset (ct_cfg ct))))"
  with assms obtain z where z: "TimeToZ ct tb sector row pad = Inr z"
    using TimeToZ_returns [of sector row ct tb pad] by blast
  with a have "ZToTime ct z sector row pad = Inr tb"
    by (intro ZToTime_TimeToZ) simp_all
  with z show "\<exists>z. TimeToZ ct tb sector row pad = Inr z \<and> ZToTime ct z sector row pad = Inr tb"
    by blast
qed

theorem pad_and_time_round_trip_witness:
  "XToPad fixture_ct (PadToX fixture_ct 1 1 50) 1 1 = 50
   \<and> (\<exists>z. TimeToZ fixture_ct 100 1 1 50 = Inr z \<and> ZToTime fixture_ct z 1 1 50 = Inr 100)
   \<and> XToPad fixture_ct (PadToX fixture_ct 24 4 0.75) 24 4 = 0.75
   \<and> (\<exists>z. TimeToZ fixture_ct 0 24 4 1 = Inr z \<and> ZToTime fixture_ct z 24 4 1 = Inr 0)"
  using pad_and_time_round_trip [where sector = 1 and row = 1 and ct = fixture_ct and p = 50
                                   and tb = 100 and pad = 50]
        pad_and_time_round_trip [where sector = 24 and row = 4 and ct = fixture_ct and p = "0.75"
                                   and tb = 0 and pad = 1]
  by (simp add: fixture_defs)

subsection \<open>Rows outside the configured range\<close>

lemma row_below_one_reads_out_of_bounds:
  assumes "row \<le> 0"
  shows "\<exists>e. TimeToZ ct tb sector row pad = Inl e" and "\<exists>e. ZToTime ct z sector row pad = Inl e"
  using assms
  by (auto simp add: TimeToZ_def ZToTime_def at_index_def Let_def split: sum.splits)

text \<open>
  Claim C2. The conversions clamp a row above \<open>padRows\<close> only. On the fixture, \<open>TimeToZ\<close>
  and \<open>ZToTime\<close> called with row 0 (or -3) read \<open>T0[row - 1]\<close> before the array, while
  row 99 is clamped to row 4 and returns.
\<close>

theorem TimeToZ_row_zero_reads_out_of_bounds:
  "TimeToZ fixture_ct 100 1 0 50 = Inl OutOfBounds
   \<and> ZToTime fixture_ct 10 1 0 50 = Inl OutOfBounds
   \<and> TimeToZ fixture_ct 100 1 (- 3) 50 = Inl OutOfBounds
   \<and> TimeToZ fixture_ct 100 1 99 50 = Inr (2959 / 40000000)"
  by (simp add: TimeToZ_def ZToTime_def fixture_defs at_index_def Let_def)

text \<open>
  Claim C3. On the fixture, \<open>local_sector_to_hardware\<close> given row 99 stores the row 1
  re-derived from \<open>y = 62\<close>, but the pad it stores is \<open>XToPad\<close> of the supplied row 99
  (clamped to the outer row 4), not \<open>XToPad\<close> of row 1.
\<close>

theorem local_sector_to_hardware_pad_uses_supplied_row:
  "fst (local_sector_to_hardware fixture_ct YToRow_static_init fixture_ls)
     = Inr \<lparr>pc_sector = 1, pc_row = 1, pc_pad = 6433 / 134, pc_timeBucket = 409999307 / 22\<rparr>
   \<and> fst (YToRow fixture_ct YToRow_static_init 62 1) = Inr 1
   \<and> XToPad fixture_ct 1 1 99 = 6433 / 134
   \<and> XToPad fixture_ct 1 1 1 = 5563 / 134"
  by code_simp

section \<open>Properties of the row lookup\<close>

subsection \<open>The binary search\<close>

lemma lower_bound_0: "lower_bound xs first 0 v = first"
  by (subst lower_bound.simps) simp

lemma lower_bound_step_right:
  "len \<noteq> 0 \<Longrightarrow> xs ! (first + len div 2) < v \<Longrightarrow>
   lower_bound xs first len v = lower_bound xs (first + len div 2 + 1) (len - len div 2 - 1) v"
  by (subst lower_bound.simps) simp

lemma lower_bound_step_left:
  "len \<noteq> 0 \<Longrightarrow> \<not> xs ! (first + len div 2) < v \<Longrightarrow>
   lower_bound xs first len v = lower_bound xs first (len div 2) v"
  by (subst lower_bound.simps) simp

lemma half_facts:
  fixes len :: nat
  assumes "len \<noteq> 0"
  shows "len div 2 < len" and "len div 2 + 1 + (len - len div 2 - 1) = len"
  using assms by auto

lemma lower_bound_bounds:
  "first \<le> lower_bound xs first len v \<and> lower_bound xs first len v \<le> first + len"
proof (induction xs first len v rule: lower_bound.induct)
  case (1 xs first len val)
  show ?case
  proof (cases "len = 0")
    case True
    then show ?thesis by (simp add: lower_bound_0)
  next
    case False
    define h where "h = len div 2"
    define l2 where "l2 = len - len div 2 - 1"
    have h: "h < len" "h + 1 + l2 = len"
      using half_facts [OF False] by (simp_all add: h_def l2_def)
    show ?thesis
    proof (cases "xs ! (first + len div 2) < val")
      case True
      from 1(1) [OF False True]
      have "first + h + 1 \<le> lower_bound xs (first + h + 1) l2 val
            \<and> lower_bound xs (first + h + 1) l2 val \<le> first + h + 1 + l2"
        by (simp add: h_def l2_def)
      moreover have "lower_bound xs first len val = lower_bound xs (first + h + 1) l2 val"
        using lower_bound_step_right [OF False True] by (simp add: h_def l2_def)
      ultimately show ?thesis
        using h by linarith
    next
      case right: False
      from 1(2) [OF False right]
      have "first \<le> lower_bound xs first h val \<and> lower_bound xs first h val \<le> first + h"
        by (simp add: h_def)
      moreover have "lower_bound xs first len val = lower_bound xs first h val"
        using lower_bound_step_left [OF False right] by (simp add: h_def)
      ultimately show ?thesis
        using h by linarith
    qed
  qed
qed

lemma lower_bound_not_less:
  "lower_bound xs first len v < first + len \<Longrightarrow> \<not> xs ! lower_bound xs first len v < v"
proof (induction xs first len v rule: lower_bound.induct)
  case (1 xs first len val)
  from 1(3) have len: "len \<noteq> 0"
    by (cases "len = 0") (simp_all add: lower_bound_0)
  show ?case
  proof (cases "xs ! (first + len div 2) < val")
    case True
    have eq: "lower_bound xs first len val = lower_bound xs (first + len div 2 + 1) (len - len div 2 - 1) val"
      using len True by (rule lower_bound_step_right)
    have "first + len div 2 + 1 + (len - len div 2 - 1) = first + len"
      using half_facts(2) [OF len] by simp
    with 1(3) have "lower_bound xs (first + len div 2 + 1) (len - len div 2 - 1) val < first + len div 2 + 1 + (len - len div 2 - 1)"
      unfolding eq by simp
    from 1(1) [OF len True this] show ?thesis unfolding eq .
  next
    case False
    have eq: "lower_bound xs first len val = lower_bound xs first (len div 2) val"
      using len False by (rule lower_bound_step_left)
    show ?thesis
    proof (cases "lower_bound xs first (len div 2) val < first + len div 2")
      case True
      from 1(2) [OF len False this] show ?thesis unfolding eq .
    next
      case nl: False
      with lower_bound_bounds [of first xs "len div 2" val]
      have "lower_bound xs first (len div 2) val = first + len div 2" by simp
      with False show ?thesis unfolding eq by simp
    qed
  qed
qed

lemma lower_bound_mono:
  "v1 \<le> v2 \<Longrightarrow> lower_bound xs first len v1 \<le> lower_bound xs first len v2"
proof (induction xs first len v1 rule: lower_bound.induct)
  case (1 xs first len v1)
  show ?case
  proof (cases "len = 0")
    case True
    then show ?thesis by (simp add: lower_bound_0)
  next
    case len: False
    show ?thesis
    proof (cases "xs ! (first + len div 2) < v1")
      case True
      with 1(3) have "xs ! (first + len div 2) < v2" by simp
      then show ?thesis
        using 1(1) [OF len True 1(3)]
        by (simp add: lower_bound_step_right [OF len True] lower_bound_step_right [OF len])
    next
      case False
      have eq1: "lower_bound xs first len v1 = lower_bound xs first (len div 2) v1"
        using len False by (rule lower_bound_step_left)
      show ?thesis
      proof (cases "xs ! (first + len div 2) < v2")
        case True
        have eq2: "lower_bound xs first len v2 = lower_bound xs (first + len div 2 + 1) (len - len div 2 - 1) v2"
          using len True by (rule lower_bound_step_right)
        from lower_bound_bounds [of first xs "len div 2" v1]
             lower_bound_bounds [of "first + len div 2 + 1" xs "len - len div 2 - 1" v2]
        show ?thesis unfolding eq1 eq2 by linarith
      next
        case r2: False
        have eq2: "lower_bound xs first len v2 = lower_bound xs first (len div 2) v2"
          using len r2 by (rule lower_bound_step_left)
        from 1(2) [OF len False 1(3)] show ?thesis unfolding eq1 eq2 .
      qed
    qed
  qed
qed

subsection \<open>The rows returned\<close>

lemma pick_row_range: "1 \<le> n \<Longrightarrow> 1 \<le> pick_row n radii y \<and> pick_row n radii y \<le> n"
  by (simp add: pick_row_def Let_def)

lemma pick_row_mono:
  assumes "y1 \<le> y2" and n: "0 \<le> n + 1"
  shows "pick_row n radii y1 \<le> pick_row n radii y2"
proof (cases "y1 = y2")
  case True
  then show ?thesis by simp
next
  case False
  with assms have lt: "y1 < y2" by simp
  define i1 where "i1 = lower_bound radii 0 (nat (n + 1)) y1"
  define i2 where "i2 = lower_bound radii 0 (nat (n + 1)) y2"
  define a1 where "a1 = (if int i1 \<noteq> n + 1 \<and> radii ! nat (int i1) = y1 then int i1 + 1 else int i1)"
  define a2 where "a2 = (if int i2 \<noteq> n + 1 \<and> radii ! nat (int i2) = y2 then int i2 + 1 else int i2)"
  have le: "i1 \<le> i2"
    unfolding i1_def i2_def using assms(1) by (rule lower_bound_mono)
  have a2: "int i2 \<le> a2"
    by (simp add: a2_def)
  have "a1 \<le> a2"
  proof (cases "i1 = i2")
    case True
    have "\<not> (int i1 \<noteq> n + 1 \<and> radii ! nat (int i1) = y1)"
    proof
      assume a: "int i1 \<noteq> n + 1 \<and> radii ! nat (int i1) = y1"
      from lower_bound_bounds [of 0 radii "nat (n + 1)" y2] have "i2 \<le> nat (n + 1)"
        by (simp add: i2_def)
      with a True n have "i2 < 0 + nat (n + 1)" by linarith
      then have "\<not> radii ! i2 < y2"
        unfolding i2_def by (rule lower_bound_not_less)
      moreover from a True have "radii ! i2 = y1" by simp
      ultimately show False using lt by simp
    qed
    then have "a1 = int i1" by (simp add: a1_def)
    with True a2 show ?thesis by simp
  next
    case False
    with le have "i1 < i2" by simp
    moreover have "a1 \<le> int i1 + 1" by (simp add: a1_def)
    ultimately show ?thesis using a2 by linarith
  qed
  moreover have "pick_row n radii y1 = (let row = (if a1 \<le> 0 then 1 else a1) in if row > n then n else row)"
    unfolding pick_row_def a1_def i1_def Let_def by (rule refl)
  moreover have "pick_row n radii y2 = (let row = (if a2 \<le> 0 then 1 else a2) in if row > n then n else row)"
    unfolding pick_row_def a2_def i2_def Let_def by (rule refl)
  ultimately show ?thesis by (simp add: Let_def)
qed

lemma length_build_Radii: "int (length (build_Radii cfg n)) = (if 0 \<le> n + 1 then n + 1 else 0)"
  by (simp add: build_Radii_def)

lemma YToRow_result:
  assumes ok: "YToRow_static_ok st" and n: "1 \<le> padRows (S_tpcPadPlanes (ct_cfg ct))"
  shows "YToRow ct st y sector =
          (Inr (pick_row (padRows (S_tpcPadPlanes (ct_cfg ct))) (used_table ct st) y),
           \<lparr>Nrows = padRows (S_tpcPadPlanes (ct_cfg ct)), Radii = Some (used_table ct st)\<rparr>)"
proof (cases "Nrows st = padRows (S_tpcPadPlanes (ct_cfg ct))")
  case True
  with ok n obtain radii where "Radii st = Some radii"
    by (auto simp add: YToRow_static_ok_def)
  with True show ?thesis
    by (simp add: YToRow_def used_table_def pick_row_def Let_def)
next
  case False
  with n show ?thesis
    by (simp add: YToRow_def used_table_def pick_row_def Let_def)
qed

lemma used_table_after:
  "used_table ct \<lparr>Nrows = padRows (S_tpcPadPlanes (ct_cfg ct)), Radii = Some radii\<rparr> = radii"
  by (simp add: used_table_def)

lemma static_ok_after:
  assumes ok: "YToRow_static_ok st" and n: "1 \<le> padRows (S_tpcPadPlanes (ct_cfg ct))"
  shows "YToRow_static_ok \<lparr>Nrows = padRows (S_tpcPadPlanes (ct_cfg ct)), Radii = Some (used_table ct st)\<rparr>"
proof (cases "Nrows st = padRows (S_tpcPadPlanes (ct_cfg ct))")
  case True
  with ok n show ?thesis
    by (auto simp add: YToRow_static_ok_def used_table_def)
next
  case False
  with n show ?thesis
    by (simp add: YToRow_static_ok_def used_table_def length_build_Radii)
qed

text \<open>
  Claim C6. For radial distances \<open>y1 \<le> y2\<close> and any sector, the row returned for
  \<open>y1\<close> is at most the row returned for \<open>y2\<close>, whether the two calls start from the
  same statics or follow each other; and every row returned lies in \<open>[1, padRows]\<close>.
  The detector has at least one pad row.
\<close>

theorem YToRow_monotone_in_range:
  assumes ok: "YToRow_static_ok st" and n: "1 \<le> padRows (S_tpcPadPlanes (ct_cfg ct))"
    and y: "y1 \<le> y2"
  shows "\<exists>r1 r2. fst (YToRow ct st y1 sector) = Inr r1
           \<and> fst (YToRow ct (snd (YToRow ct st y1 sector)) y2 sector) = Inr r2
           \<and> fst (YToRow ct st y2 sector) = Inr r2
           \<and> r1 \<le> r2
           \<and> 1 \<le> r1 \<and> r1 \<le> padRows (S_tpcPadPlanes (ct_cfg ct))
           \<and> 1 \<le> r2 \<and> r2 \<le> padRows (S_tpcPadPlanes (ct_cfg ct))"
proof -
  let ?n = "padRows (S_tpcPadPlanes (ct_cfg ct))"
  let ?st1 = "\<lparr>Nrows = ?n, Radii = Some (used_table ct st)\<rparr>"
  have 1: "YToRow ct st y1 sector = (Inr (pick_row ?n (used_table ct st) y1), ?st1)"
    using ok n by (rule YToRow_result)
  have 2: "YToRow ct ?st1 y2 sector = (Inr (pick_row ?n (used_table ct st) y2), ?st1)"
    using YToRow_result [OF static_ok_after [OF ok n] n, of y2 sector]
    by (simp add: used_table_after)
  have 3: "YToRow ct st y2 sector = (Inr (pick_row ?n (used_table ct st) y2), ?st1)"
    using ok n by (rule YToRow_result)
  from n have "0 \<le> ?n + 1" by simp
  with y have "pick_row ?n (used_table ct st) y1 \<le> pick_row ?n (used_table ct st) y2"
    by (rule pick_row_mono)
  with pick_row_range [OF n, of "used_table ct st" y1] pick_row_range [OF n, of "used_table ct st" y2]
  show ?thesis
    by (simp add: 1 2 3)
qed

theorem YToRow_monotone_in_range_witness:
  "YToRow_static_ok YToRow_static_init
   \<and> 1 \<le> padRows (S_tpcPadPlanes (ct_cfg fixture_ct))
   \<and> (62 :: real) \<le> 66
   \<and> (\<exists>r1 r2. fst (YToRow fixture_ct YToRow_static_init 62 1) = Inr r1
           \<and> fst (YToRow fixture_ct (snd (YToRow fixture_ct YToRow_static_init 62 1)) 66 1) = Inr r2
           \<and> fst (YToRow fixture_ct YToRow_static_init 66 1) = Inr r2
           \<and> r1 \<le> r2
           \<and> 1 \<le> r1 \<and> r1 \<le> padRows (S_tpcPadPlanes (ct_cfg fixture_ct))
           \<and> 1 \<le> r2 \<and> r2 \<le> padRows (S_tpcPadPlanes (ct_cfg fixture_ct)))"
proof -
  have ok: "YToRow_static_ok YToRow_static_init"
    by (simp add: YToRow_static_ok_def YToRow_static_init_def)
  have n: "1 \<le> padRows (S_tpcPadPlanes (ct_cfg fixture_ct))"
    by (simp add: fixture_defs)
  have y: "(62 :: real) \<le> 66" by simp
  from YToRow_monotone_in_range [OF ok n y, of 1] ok n y show ?thesis
    by blast
qed

text \<open>
  Claim C10. The row returned by \<open>YToRow\<close>, and the statics it leaves, do not depend on
  the sector argument.
\<close>

theorem YToRow_sector_independent:
  "YToRow ct st y s1 = YToRow ct st y s2"
  by (simp add: YToRow_def)

section \<open>Properties of the sector transform cache\<close>

subsection \<open>Orthonormal rotations\<close>

lemma orthonormal_cols:
  "orthonormal r \<longleftrightarrow>
     Dot (col0 r) (col0 r) = 1 \<and> Dot (col1 r) (col1 r) = 1 \<and> Dot (col2 r) (col2 r) = 1
   \<and> Dot (col0 r) (col1 r) = 0 \<and> Dot (col0 r) (col2 r) = 0 \<and> Dot (col1 r) (col2 r) = 0"
  by (simp add: orthonormal_def Dot_def col0_def col1_def col2_def)

lemma cols_rot_mul:
  "col0 (rot_mul a b) = mat_vec a (col0 b)"
  "col1 (rot_mul a b) = mat_vec a (col1 b)"
  "col2 (rot_mul a b) = mat_vec a (col2 b)"
  by (simp_all add: rot_mul_def mat_vec_def col0_def col1_def col2_def)

lemma Dot_mat_vec_expand:
  "Dot (mat_vec a u) (mat_vec a v) =
     Dot (col0 a) (col0 a) * (vx u * vx v)
   + Dot (col1 a) (col1 a) * (vy u * vy v)
   + Dot (col2 a) (col2 a) * (vz u * vz v)
   + Dot (col0 a) (col1 a) * (vx u * vy v + vy u * vx v)
   + Dot (col0 a) (col2 a) * (vx u * vz v + vz u * vx v)
   + Dot (col1 a) (col2 a) * (vy u * vz v + vz u * vy v)"
  by (simp add: Dot_def mat_vec_def col0_def col1_def col2_def algebra_simps)

lemma Dot_mat_vec:
  "orthonormal a \<Longrightarrow> Dot (mat_vec a u) (mat_vec a v) = Dot u v"
  by (simp add: Dot_mat_vec_expand) (simp add: orthonormal_cols Dot_def)

lemma orthonormal_rot_mul:
  "orthonormal a \<Longrightarrow> orthonormal b \<Longrightarrow> orthonormal (rot_mul a b)"
  by (simp add: orthonormal_cols [of "rot_mul a b"] cols_rot_mul Dot_mat_vec)
     (simp add: orthonormal_cols)

lemma Cross_bac_cab:
  "Cross a (Cross b c) = vadd (scale (Dot a c) b) (scale (- Dot a b) c)"
  by (simp add: Cross_def Dot_def vadd_def scale_def algebra_simps)

lemma Cross_lagrange:
  "Dot (Cross a b) (Cross a b) = Dot a a * Dot b b - Dot a b * Dot a b"
  by (simp add: Cross_def Dot_def algebra_simps)

lemma Dot_scale_right: "Dot a (scale k b) = k * Dot a b"
  by (simp add: Dot_def scale_def algebra_simps)

lemma Dot_commute: "Dot a b = Dot b a"
  by (simp add: Dot_def algebra_simps)

lemma Dot_self_zero: "Dot a a = 0 \<Longrightarrow> a = TVector3 0 0 0"
proof -
  assume "Dot a a = 0"
  then have "vx a * vx a + vy a * vy a + vz a * vz a = 0" by (simp add: Dot_def)
  then have "vx a = 0 \<and> vy a = 0 \<and> vz a = 0"
    by (smt (verit) mult_eq_0_iff not_sum_squares_lt_zero sum_squares_eq_zero_iff zero_le_square)
  then show ?thesis by (cases a) simp
qed

text \<open>
  In an orthonormal frame the middle column is the cross product of the other two, up
  to sign.
\<close>

lemma middle_column:
  assumes dd: "Dot d d = 1" and tt: "Dot t t = 1" and nn: "Dot n n = 1"
    and dt: "Dot d t = 0" and dn: "Dot d n = 0" and nt: "Dot n t = 0"
  shows "(if Dot (Cross d t) n < 0 then scale (- 1) (Cross d t) else Cross d t) = n"
proof -
  define c where "c = Cross d t"
  have cc: "Dot c c = 1"
    by (simp add: c_def Cross_lagrange dd tt dt)
  have "Cross n c = vadd (scale (Dot n t) d) (scale (- Dot n d) t)"
    by (simp add: c_def Cross_bac_cab)
  also have "\<dots> = TVector3 0 0 0"
    using dn nt by (simp add: Dot_commute [of n d] vadd_def scale_def)
  finally have nc: "Cross n c = TVector3 0 0 0" .
  have "vadd (scale (Dot c c) n) (scale (- Dot c n) c) = Cross c (Cross n c)"
    by (rule Cross_bac_cab [symmetric])
  also have "\<dots> = Cross c (TVector3 0 0 0)"
    by (simp only: nc)
  also have "\<dots> = TVector3 0 0 0"
    by (simp add: Cross_def)
  finally have "vadd (scale 1 n) (scale (- Dot c n) c) = TVector3 0 0 0"
    by (simp only: cc)
  then have n: "n = scale (Dot c n) c"
    by (cases n; cases c) (simp add: vadd_def scale_def)
  then have "Dot n n = Dot c n * Dot c n"
    by (metis Dot_commute Dot_scale_right)
  with nn have "Dot c n * Dot c n = 1" by simp
  then have "Dot c n = 1 \<or> Dot c n = - 1"
    by (metis mult_cancel_left1 mult_minus_right square_eq_1_iff)
  then show ?thesis
  proof
    assume "Dot c n = 1"
    with n show ?thesis by (cases c) (simp add: c_def scale_def)
  next
    assume "Dot c n = - 1"
    with n show ?thesis by (cases c) (simp add: c_def scale_def)
  qed
qed

lemma Normalize_orthonormal:
  assumes "orthonormal (fRotationMatrix m)"
  shows "Normalize m = m"
proof -
  let ?r = "fRotationMatrix m"
  from assms have o: "Dot (col0 ?r) (col0 ?r) = 1" "Dot (col1 ?r) (col1 ?r) = 1"
      "Dot (col2 ?r) (col2 ?r) = 1" "Dot (col0 ?r) (col1 ?r) = 0"
      "Dot (col0 ?r) (col2 ?r) = 0" "Dot (col1 ?r) (col2 ?r) = 0"
    by (simp_all add: orthonormal_cols)
  have md: "Mag (col0 ?r) = 1" and mt: "Mag (col2 ?r) = 1"
    using o by (simp_all add: Mag_def Dot_def)
  have sd: "scale (1 / Mag (col0 ?r)) (col0 ?r) = col0 ?r"
    and st: "scale (1 / Mag (col2 ?r)) (col2 ?r) = col2 ?r"
    by (simp_all add: md mt scale_def)
  have c: "(if Dot (Cross (col0 ?r) (col2 ?r)) (col1 ?r) < 0
            then scale (- 1) (Cross (col0 ?r) (col2 ?r)) else Cross (col0 ?r) (col2 ?r)) = col1 ?r"
    using o by (intro middle_column) (simp_all add: Dot_commute)
  have "Normalize m = m\<lparr>fRotationMatrix :=
          Rotation (vx (col0 ?r)) (vx (col1 ?r)) (vx (col2 ?r))
                   (vy (col0 ?r)) (vy (col1 ?r)) (vy (col2 ?r))
                   (vz (col0 ?r)) (vz (col1 ?r)) (vz (col2 ?r))\<rparr>"
    unfolding Normalize_def Let_def
    unfolding col0_def [symmetric] col1_def [symmetric] col2_def [symmetric]
    unfolding sd st c ..
  also have "\<dots> = m"
    by (cases ?r) (simp add: col0_def col1_def col2_def)
  finally show ?thesis .
qed

subsection \<open>What the construction stores\<close>

lemma upto_0_13: "[0..13] = [0,1,2,3,4,5,6,7,8,9,10,11,12,13::int]"
  by (simp add: upto_rec1)

lemma sector_loop:
  assumes len: "length (ct_sector_rotations ct) = 336" and m: "m < 24"
  shows "SetTpcRotations_sector kU ct (int m + 1) =
    Inr (ct\<lparr>ct_sector_rotations := (ct_sector_rotations ct)
       [14 * m := stored_stage (ct_cfg ct) (ct_tpc2global ct) (int m + 1) 0,
        14 * m + 1 := stored_stage (ct_cfg ct) (ct_tpc2global ct) (int m + 1) 1,
        14 * m + 2 := stored_stage (ct_cfg ct) (ct_tpc2global ct) (int m + 1) 2,
        14 * m + 3 := stored_stage (ct_cfg ct) (ct_tpc2global ct) (int m + 1) 3,
        14 * m + 4 := stored_stage (ct_cfg ct) (ct_tpc2global ct) (int m + 1) 4,
        14 * m + 5 := stored_stage (ct_cfg ct) (ct_tpc2global ct) (int m + 1) 5,
        14 * m + 6 := stored_stage (ct_cfg ct) (ct_tpc2global ct) (int m + 1) 6,
        14 * m + 7 := stored_stage (ct_cfg ct) (ct_tpc2global ct) (int m + 1) 7,
        14 * m + 8 := stored_stage (ct_cfg ct) (ct_tpc2global ct) (int m + 1) 8,
        14 * m + 9 := stored_stage (ct_cfg ct) (ct_tpc2global ct) (int m + 1) 9,
        14 * m + 10 := stored_stage (ct_cfg ct) (ct_tpc2global ct) (int m + 1) 10,
        14 * m + 11 := stored_stage (ct_cfg ct) (ct_tpc2global ct) (int m + 1) 11,
        14 * m + 12 := stored_stage (ct_cfg ct) (ct_tpc2global ct) (int m + 1) 12,
        14 * m + 13 := stored_stage (ct_cfg ct) (ct_tpc2global ct) (int m + 1) 13]\<rparr>)"
proof -
  show ?thesis
    using len m
    by (simp add: SetTpcRotations_sector_def SetTpcRotations_step_def stage_rotA_def stage_defs
        accessor_defs TpcRot_def at_index_def mul_e_def upto_0_13 Let_def stored_stage_def
        nat_add_distrib nat_mult_distrib)
qed

lemma sector_loop_props:
  assumes len: "length (ct_sector_rotations ct) = 336" and m: "m < 24"
  shows "\<exists>ct'. SetTpcRotations_sector kU ct (int m + 1) = Inr ct'
           \<and> ct_cfg ct' = ct_cfg ct \<and> ct_tpc2global ct' = ct_tpc2global ct
           \<and> ct_timebin_width ct' = ct_timebin_width ct
           \<and> length (ct_sector_rotations ct') = 336
           \<and> sector_stored (ct_sector_rotations ct') (ct_cfg ct) (ct_tpc2global ct) m
           \<and> (\<forall>i. i < 14 * m \<longrightarrow> ct_sector_rotations ct' ! i = ct_sector_rotations ct ! i)"
  using len m
  by (simp add: sector_loop [OF len m] sector_stored_def)

lemma sector_stored_frame:
  assumes "sector_stored rots cfg g m" and "m < n"
    and "\<forall>i. i < 14 * n \<longrightarrow> rots' ! i = rots ! i"
  shows "sector_stored rots' cfg g m"
  using assms by (simp add: sector_stored_def)

lemma foldE_append:
  "foldE f (xs @ ys) s = (case foldE f xs s of Inl e \<Rightarrow> Inl e | Inr s' \<Rightarrow> foldE f ys s')"
  by (induction xs arbitrary: s) (simp_all split: sum.splits)

lemma sectors_loop:
  assumes len: "length (ct_sector_rotations ct) = 336" and n: "n \<le> 24"
  shows "\<exists>ct'. foldE (SetTpcRotations_sector kU) (map (\<lambda>m. int m + 1) [0..<n]) ct = Inr ct'
           \<and> ct_cfg ct' = ct_cfg ct \<and> ct_tpc2global ct' = ct_tpc2global ct
           \<and> ct_timebin_width ct' = ct_timebin_width ct
           \<and> length (ct_sector_rotations ct') = 336
           \<and> (\<forall>m < n. sector_stored (ct_sector_rotations ct') (ct_cfg ct) (ct_tpc2global ct) m)"
  using n
proof (induction n)
  case 0
  with len show ?case by simp
next
  case (Suc n)
  then obtain ct1 where 1: "foldE (SetTpcRotations_sector kU) (map (\<lambda>m. int m + 1) [0..<n]) ct = Inr ct1"
    and f1: "ct_cfg ct1 = ct_cfg ct" "ct_tpc2global ct1 = ct_tpc2global ct"
            "ct_timebin_width ct1 = ct_timebin_width ct"
    and len1: "length (ct_sector_rotations ct1) = 336"
    and st1: "\<forall>m < n. sector_stored (ct_sector_rotations ct1) (ct_cfg ct) (ct_tpc2global ct) m"
    by auto
  from Suc.prems have n: "n < 24" by simp
  from sector_loop_props [OF len1 n, of kU] obtain ct2
    where 2: "SetTpcRotations_sector kU ct1 (int n + 1) = Inr ct2"
    and f2: "ct_cfg ct2 = ct_cfg ct1" "ct_tpc2global ct2 = ct_tpc2global ct1"
            "ct_timebin_width ct2 = ct_timebin_width ct1"
    and len2: "length (ct_sector_rotations ct2) = 336"
    and st2: "sector_stored (ct_sector_rotations ct2) (ct_cfg ct1) (ct_tpc2global ct1) n"
    and fr2: "\<forall>i. i < 14 * n \<longrightarrow> ct_sector_rotations ct2 ! i = ct_sector_rotations ct1 ! i"
    by blast
  have "foldE (SetTpcRotations_sector kU) (map (\<lambda>m. int m + 1) [0..<Suc n]) ct = Inr ct2"
    by (simp add: foldE_append 1 2)
  moreover have "\<forall>m < Suc n. sector_stored (ct_sector_rotations ct2) (ct_cfg ct) (ct_tpc2global ct) m"
  proof (intro allI impI)
    fix m assume "m < Suc n"
    show "sector_stored (ct_sector_rotations ct2) (ct_cfg ct) (ct_tpc2global ct) m"
    proof (cases "m = n")
      case True
      with st2 f1 show ?thesis by simp
    next
      case False
      with \<open>m < Suc n\<close> have "m < n" by simp
      with st1 fr2 show ?thesis by (blast intro: sector_stored_frame)
    qed
  qed
  ultimately show ?case using f1 f2 len2 by simp
qed

lemma sector0_step:
  "SetTpcRotations_step ct 0 k =
     Inr (ct\<lparr>ct_tpc2global := Normalize (tpc_reference_system (ct_cfg ct))\<rparr>)"
  by (simp add: SetTpcRotations_step_def Let_def)

lemma sector0_loop_aux:
  "foldE (\<lambda>ct k. Inr (ct\<lparr>ct_tpc2global := Normalize (tpc_reference_system (ct_cfg ct))\<rparr>)) ks ct =
     Inr (if ks = [] then ct else ct\<lparr>ct_tpc2global := Normalize (tpc_reference_system (ct_cfg ct))\<rparr>)"
  by (induction ks arbitrary: ct) simp_all

lemma sector0_loop:
  "foldE (\<lambda>ct k. SetTpcRotations_step ct 0 k) ks ct =
     Inr (if ks = [] then ct else ct\<lparr>ct_tpc2global := Normalize (tpc_reference_system (ct_cfg ct))\<rparr>)"
  unfolding sector0_step by (rule sector0_loop_aux)

lemma upto_1_24: "[1..24] = map (\<lambda>m. int m + 1) [0..<24]"
  by (simp add: upto_rec1 upt_rec)

lemma SetTpcRotations_result:
  assumes len: "length (ct_sector_rotations ct) = 336"
  shows "\<exists>ct'. SetTpcRotations kU ct = Inr ct'
           \<and> ct_cfg ct' = ct_cfg ct \<and> ct_tpc2global ct' = built_tpc2global kU ct
           \<and> ct_timebin_width ct' = ct_timebin_width ct
           \<and> length (ct_sector_rotations ct') = 336
           \<and> (\<forall>m < 24. sector_stored (ct_sector_rotations ct') (ct_cfg ct) (built_tpc2global kU ct) m)"
proof -
  define ct0 where "ct0 = (if [kU..kSupS2Tpc - 1] = [] then ct
                           else ct\<lparr>ct_tpc2global := Normalize (tpc_reference_system (ct_cfg ct))\<rparr>)"
  have 0: "SetTpcRotations_sector kU ct 0 = Inr ct0"
    by (simp add: SetTpcRotations_sector_def sector0_loop ct0_def)
  have f0: "ct_cfg ct0 = ct_cfg ct" "ct_tpc2global ct0 = built_tpc2global kU ct"
      "ct_timebin_width ct0 = ct_timebin_width ct" "length (ct_sector_rotations ct0) = 336"
    using len by (simp_all add: ct0_def built_tpc2global_def)
  have split: "[0..24] = 0 # [1..24]"
    by (simp add: upto_rec1)
  from sectors_loop [OF f0(4), of 24 kU] f0
  show ?thesis
    by (simp add: SetTpcRotations_def split 0 upto_1_24)
qed

lemma stored_reads:
  assumes st: "sector_stored (ct_sector_rotations ct) cfg g m"
    and len: "length (ct_sector_rotations ct) = 336" and m: "m < 24"
  shows "SupS2Tpc ct (int m + 1) = Inr (stored_stage cfg g (int m + 1) 0)"
    and "SupS2Glob ct (int m + 1) = Inr (stored_stage cfg g (int m + 1) 1)"
    and "SubSInner2SupS ct (int m + 1) = Inr (stored_stage cfg g (int m + 1) 2)"
    and "SubSOuter2SupS ct (int m + 1) = Inr (stored_stage cfg g (int m + 1) 3)"
    and "SubSInner2Tpc ct (int m + 1) = Inr (stored_stage cfg g (int m + 1) 4)"
    and "SubSOuter2Tpc ct (int m + 1) = Inr (stored_stage cfg g (int m + 1) 5)"
    and "SubSInner2Glob ct (int m + 1) = Inr (stored_stage cfg g (int m + 1) 6)"
    and "SubSOuter2Glob ct (int m + 1) = Inr (stored_stage cfg g (int m + 1) 7)"
    and "PadInner2SupS ct (int m + 1) = Inr (stored_stage cfg g (int m + 1) 8)"
    and "PadOuter2SupS ct (int m + 1) = Inr (stored_stage cfg g (int m + 1) 9)"
    and "PadInner2Tpc ct (int m + 1) = Inr (stored_stage cfg g (int m + 1) 10)"
    and "PadOuter2Tpc ct (int m + 1) = Inr (stored_stage cfg g (int m + 1) 11)"
    and "PadInner2Glob ct (int m + 1) = Inr (stored_stage cfg g (int m + 1) 12)"
    and "PadOuter2Glob ct (int m + 1) = Inr (stored_stage cfg g (int m + 1) 13)"
  using assms
  by (simp_all add: sector_stored_def accessor_defs TpcRot_def at_index_def stage_defs
        nat_add_distrib nat_mult_distrib)

lemma CoordTransform_new_result:
  "\<exists>ct. CoordTransform_new kU cfg = Inr ct
        \<and> ct_cfg ct = cfg \<and> ct_tpc2global ct = new_tpc2global kU cfg
        \<and> ct_timebin_width ct = 1000000 / frequency (S_starClockOnl cfg)
        \<and> length (ct_sector_rotations ct) = 336
        \<and> (\<forall>m < 24. sector_stored (ct_sector_rotations ct) cfg (new_tpc2global kU cfg) m)"
proof -
  let ?ct0 = "\<lparr>ct_cfg = cfg,
       ct_timebin_width = 1000000 / frequency (S_starClockOnl cfg),
       ct_z_inner_offset = z_inner_offset (S_tpcEffectiveGeom cfg),
       ct_z_outer_offset = z_outer_offset (S_tpcEffectiveGeom cfg),
       ct_tpc2global = TGeoHMatrix_identity,
       ct_sector_rotations = replicate (nat (12 * 2 * kTotalTpcSectorRotaions)) TGeoHMatrix_identity\<rparr>"
  have len: "length (ct_sector_rotations ?ct0) = 336"
    by (simp add: stage_defs)
  have g: "built_tpc2global kU ?ct0 = new_tpc2global kU cfg"
    by (simp add: built_tpc2global_def new_tpc2global_def)
  from SetTpcRotations_result [OF len, of kU] show ?thesis
    unfolding CoordTransform_new_def g by simp
qed

text \<open>The time-bin width of a constructed transform is not zero when the clock frequency is not.\<close>

lemma CoordTransform_new_timebin_width:
  assumes "CoordTransform_new kU cfg = Inr ct" and "frequency (S_starClockOnl cfg) \<noteq> 0"
  shows "ct_cfg ct = cfg" and "ct_timebin_width ct \<noteq> 0"
  using CoordTransform_new_result [of kU cfg] assms by auto

subsection \<open>Rotations about the axes are orthonormal\<close>

lemma orthonormal_identity: "orthonormal (Rotation 1 0 0 0 1 0 0 0 1)"
  by (simp add: orthonormal_def)

lemma orthonormal_flip: "orthonormal (fRotationMatrix flip_matrix)"
  by (simp add: orthonormal_def flip_matrix_def)

lemma cs1: "cos x * cos x + sin x * sin x = (1::real)"
  by (simp add: sin_cos_squared_add3)

lemma orthonormal_Rx: "orthonormal (Rotation 1 0 0 0 (cos x) (- sin x) 0 (sin x) (cos x))"
  using cs1 [of x] by (simp add: orthonormal_def algebra_simps)

lemma orthonormal_Ry: "orthonormal (Rotation (cos x) 0 (sin x) 0 1 0 (- sin x) 0 (cos x))"
  using cs1 [of x] by (simp add: orthonormal_def algebra_simps)

lemma orthonormal_Rz: "orthonormal (Rotation (cos x) (- sin x) 0 (sin x) (cos x) 0 0 0 1)"
  using cs1 [of x] by (simp add: orthonormal_def algebra_simps)

lemma RotateX_rot:
  "fRotationMatrix (RotateX a m) =
     rot_mul (Rotation 1 0 0 0 (cos (a * pi / 180)) (- sin (a * pi / 180)) 0 (sin (a * pi / 180)) (cos (a * pi / 180)))
             (fRotationMatrix m)"
  by (simp add: RotateX_def rot_mul_def Let_def)

lemma RotateY_rot:
  "fRotationMatrix (RotateY a m) =
     rot_mul (Rotation (cos (a * pi / 180)) 0 (sin (a * pi / 180)) 0 1 0 (- sin (a * pi / 180)) 0 (cos (a * pi / 180)))
             (fRotationMatrix m)"
  by (simp add: RotateY_def rot_mul_def Let_def)

lemma RotateZ_rot:
  "fRotationMatrix (RotateZ a m) =
     rot_mul (Rotation (cos (a * pi / 180)) (- sin (a * pi / 180)) 0 (sin (a * pi / 180)) (cos (a * pi / 180)) 0 0 0 1)
             (fRotationMatrix m)"
  by (simp add: RotateZ_def rot_mul_def Let_def)

lemma orthonormal_RotateX: "orthonormal (fRotationMatrix m) \<Longrightarrow> orthonormal (fRotationMatrix (RotateX a m))"
  unfolding RotateX_rot by (intro orthonormal_rot_mul orthonormal_Rx)

lemma orthonormal_RotateY: "orthonormal (fRotationMatrix m) \<Longrightarrow> orthonormal (fRotationMatrix (RotateY a m))"
  unfolding RotateY_rot by (intro orthonormal_rot_mul orthonormal_Ry)

lemma orthonormal_RotateZ: "orthonormal (fRotationMatrix m) \<Longrightarrow> orthonormal (fRotationMatrix (RotateZ a m))"
  unfolding RotateZ_rot by (intro orthonormal_rot_mul orthonormal_Rz)

lemma orthonormal_mul:
  "orthonormal (fRotationMatrix a) \<Longrightarrow> orthonormal (fRotationMatrix b)
   \<Longrightarrow> orthonormal (fRotationMatrix (TGeoHMatrix_mul a b))"
  by (simp add: TGeoHMatrix_mul_def orthonormal_rot_mul)

lemma orthonormal_tpc_reference_system:
  "orthonormal (fRotationMatrix (tpc_reference_system cfg))"
  by (simp add: tpc_reference_system_def Let_def orthonormal_RotateX orthonormal_RotateY
        orthonormal_RotateZ TGeoHMatrix_identity_def orthonormal_identity)

lemma orthonormal_new_tpc2global: "orthonormal (fRotationMatrix (new_tpc2global kU cfg))"
  by (simp add: new_tpc2global_def Normalize_orthonormal orthonormal_tpc_reference_system
        TGeoHMatrix_identity_def orthonormal_identity)

lemma SetAngles_flip: "SetAngles 90 0 90 (- 90) 180 0 = Rotation 1 0 0 0 (- 1) 0 0 0 (- 1)"
proof -
  have a: "pi / 180 * 90 = pi / 2" "pi / 180 * 180 = pi" "pi / 180 * (- 90) = - (pi / 2)"
    by simp_all
  show ?thesis
    unfolding SetAngles_def Let_def a by simp
qed

lemma orthonormal_SupS2Tpc_rotA:
  assumes "orthonormal (fRotationMatrix (StTpcSuperSectorPosition cfg (sector - 1)))"
  shows "orthonormal (fRotationMatrix (SupS2Tpc_rotA cfg sector))"
proof -
  have f: "orthonormal (Rotation 1 0 0 0 (- 1) 0 0 0 (- 1))"
    by (simp add: orthonormal_def)
  show ?thesis
    unfolding SupS2Tpc_rotA_def Let_def
    by (intro orthonormal_mul assms)
       (simp_all add: TGeoTranslation_def orthonormal_identity TGeoRotation_RotateZ_def
          orthonormal_RotateZ SetAngles_flip f)
qed

subsection \<open>The passes of the construction\<close>

lemma foldE_concat_map:
  "foldE f (concat (map g xs)) s = foldE (\<lambda>s x. foldE f (g x) s) xs s"
proof (induction xs arbitrary: s)
  case Nil
  show ?case by simp
next
  case (Cons x xs)
  show ?case
    by (cases "foldE f (g x) s") (simp_all add: foldE_append Cons.IH)
qed

lemma foldE_map: "foldE f (map h xs) s = foldE (\<lambda>s x. f s (h x)) xs s"
  by (induction xs arbitrary: s) (simp_all split: sum.splits)

text \<open>The construction is one run of the loop body over the passes.\<close>

lemma SetTpcRotations_passes_fold:
  "SetTpcRotations kU ct
     = foldE (\<lambda>ct (sector, k). SetTpcRotations_step ct sector k) (SetTpcRotations_passes kU) ct"
proof -
  have "SetTpcRotations_sector kU
        = (\<lambda>ct sector. foldE (\<lambda>ct k. SetTpcRotations_step ct sector k)
             [(if sector = 0 then kU else kSupS2Tpc)
              .. (if sector = 0 then kSupS2Tpc else kTotalTpcSectorRotaions) - 1] ct)"
    by (rule ext, rule ext) (simp add: SetTpcRotations_sector_def Let_def)
  then show ?thesis
    by (simp add: SetTpcRotations_def SetTpcRotations_passes_def foldE_concat_map foldE_map)
qed

lemma distinct_pairs:
  "distinct ss \<Longrightarrow> (\<And>s. distinct (ks s))
     \<Longrightarrow> distinct (concat (map (\<lambda>s. map (Pair s) (ks s)) ss))"
  by (induction ss) (auto simp add: distinct_map inj_on_def)

text \<open>No pair of a sector and a stage is passed twice.\<close>

lemma distinct_SetTpcRotations_passes: "distinct (SetTpcRotations_passes kU)"
  unfolding SetTpcRotations_passes_def by (rule distinct_pairs) simp_all

lemma SetTpcRotations_passes_mem:
  "(sector, k) \<in> set (SetTpcRotations_passes kU) \<longleftrightarrow>
     0 \<le> sector \<and> sector \<le> 24
     \<and> (if sector = 0 then kU \<le> k \<and> k \<le> - 1 else 0 \<le> k \<and> k \<le> 13)"
  by (auto simp add: SetTpcRotations_passes_def stage_defs)

text \<open>The passes of the sectors 1..24 write slots that differ from each other (line 402).\<close>

lemma SetTpcRotations_slots_inj:
  "inj_on (\<lambda>(sector, k). kTotalTpcSectorRotaions * (sector - 1) + k)
          {p \<in> set (SetTpcRotations_passes kU). fst p \<noteq> 0}"
proof (rule inj_onI)
  fix p q
  assume p: "p \<in> {p \<in> set (SetTpcRotations_passes kU). fst p \<noteq> 0}"
    and q: "q \<in> {p \<in> set (SetTpcRotations_passes kU). fst p \<noteq> 0}"
    and e: "(case p of (sector, k) \<Rightarrow> kTotalTpcSectorRotaions * (sector - 1) + k)
          = (case q of (sector, k) \<Rightarrow> kTotalTpcSectorRotaions * (sector - 1) + k)"
  obtain s k where pp: "p = (s, k)" by (cases p)
  obtain s' k' where qq: "q = (s', k')" by (cases q)
  from p pp have a: "0 \<le> k" "k \<le> 13" by (simp_all add: SetTpcRotations_passes_mem)
  from q qq have b: "0 \<le> k'" "k' \<le> 13" by (simp_all add: SetTpcRotations_passes_mem)
  from e pp qq have "14 * (s - 1) + k = 14 * (s' - 1) + k'"
    by (simp add: kTotalTpcSectorRotaions_def)
  with a b have "s = s' \<and> k = k'" by presburger
  with pp qq show "p = q" by simp
qed

subsection \<open>Calls of the conversions leave the transform as it is\<close>

lemma call_frame: "fst (snd (call ct st c)) = ct"
  by (cases c) (simp_all add: split_def Let_def)

lemma calls_frame: "fst (snd (calls ct st cs)) = ct"
proof (induction cs arbitrary: ct st)
  case Nil
  show ?case by simp
next
  case (Cons c cs)
  obtain r ct1 st1 where c: "call ct st c = (r, ct1, st1)"
    by (cases "call ct st c") auto
  with call_frame [of ct st c] have ct1: "ct1 = ct" by simp
  obtain rs ct2 st2 where cs: "calls ct st1 cs = (rs, ct2, st2)"
    by (cases "calls ct st1 cs") auto
  with Cons.IH [of ct st1] have "ct2 = ct" by simp
  with c cs ct1 show ?case by simp
qed

subsection \<open>The stage algebra\<close>

lemma orthonormal_SubSOuter:
  "orthonormal (fRotationMatrix o2s) \<Longrightarrow> orthonormal (fRotationMatrix (TGeoHMatrix_mul flip_matrix o2s))"
  by (intro orthonormal_mul orthonormal_flip)

lemma stored_stage_orthonormal:
  assumes oS: "orthonormal (fRotationMatrix (StTpcSuperSectorPosition cfg (sector - 1)))"
    and oO: "orthonormal (fRotationMatrix (StTpcOuterSectorPosition cfg (sector - 1)))"
    and oG: "orthonormal (fRotationMatrix g)"
  shows "stored_stage cfg g sector 0 = SupS2Tpc_rotA cfg sector"
    and "stored_stage cfg g sector 1 = TGeoHMatrix_mul g (SupS2Tpc_rotA cfg sector)"
    and "stored_stage cfg g sector 2 = flip_matrix"
    and "stored_stage cfg g sector 3 =
           TGeoHMatrix_mul flip_matrix (StTpcOuterSectorPosition cfg (sector - 1))"
    and "stored_stage cfg g sector 4 = TGeoHMatrix_mul (SupS2Tpc_rotA cfg sector) flip_matrix"
    and "stored_stage cfg g sector 5 = TGeoHMatrix_mul (SupS2Tpc_rotA cfg sector)
           (TGeoHMatrix_mul flip_matrix (StTpcOuterSectorPosition cfg (sector - 1)))"
    and "stored_stage cfg g sector 6 =
           TGeoHMatrix_mul g (TGeoHMatrix_mul (SupS2Tpc_rotA cfg sector) flip_matrix)"
    and "stored_stage cfg g sector 7 = TGeoHMatrix_mul g (TGeoHMatrix_mul (SupS2Tpc_rotA cfg sector)
           (TGeoHMatrix_mul flip_matrix (StTpcOuterSectorPosition cfg (sector - 1))))"
    and "stored_stage cfg g sector 8 = flip_matrix"
    and "stored_stage cfg g sector 9 =
           TGeoHMatrix_mul flip_matrix (StTpcOuterSectorPosition cfg (sector - 1))"
    and "stored_stage cfg g sector 10 = TGeoHMatrix_mul (SupS2Tpc_rotA cfg sector) flip_matrix"
    and "stored_stage cfg g sector 11 = TGeoHMatrix_mul (SupS2Tpc_rotA cfg sector)
           (TGeoHMatrix_mul flip_matrix (StTpcOuterSectorPosition cfg (sector - 1)))"
    and "stored_stage cfg g sector 12 =
           TGeoHMatrix_mul g (TGeoHMatrix_mul (SupS2Tpc_rotA cfg sector) flip_matrix)"
    and "stored_stage cfg g sector 13 = TGeoHMatrix_mul g (TGeoHMatrix_mul (SupS2Tpc_rotA cfg sector)
           (TGeoHMatrix_mul flip_matrix (StTpcOuterSectorPosition cfg (sector - 1))))"
proof -
  note o0 = orthonormal_SupS2Tpc_rotA [OF oS]
  note o3 = orthonormal_SubSOuter [OF oO]
  note facts = Normalize_orthonormal orthonormal_mul orthonormal_flip o0 o3 oG
  show "stored_stage cfg g sector 0 = SupS2Tpc_rotA cfg sector"
    and "stored_stage cfg g sector 1 = TGeoHMatrix_mul g (SupS2Tpc_rotA cfg sector)"
    and "stored_stage cfg g sector 2 = flip_matrix"
    and "stored_stage cfg g sector 3 =
           TGeoHMatrix_mul flip_matrix (StTpcOuterSectorPosition cfg (sector - 1))"
    and "stored_stage cfg g sector 4 = TGeoHMatrix_mul (SupS2Tpc_rotA cfg sector) flip_matrix"
    and "stored_stage cfg g sector 5 = TGeoHMatrix_mul (SupS2Tpc_rotA cfg sector)
           (TGeoHMatrix_mul flip_matrix (StTpcOuterSectorPosition cfg (sector - 1)))"
    and "stored_stage cfg g sector 6 =
           TGeoHMatrix_mul g (TGeoHMatrix_mul (SupS2Tpc_rotA cfg sector) flip_matrix)"
    and "stored_stage cfg g sector 7 = TGeoHMatrix_mul g (TGeoHMatrix_mul (SupS2Tpc_rotA cfg sector)
           (TGeoHMatrix_mul flip_matrix (StTpcOuterSectorPosition cfg (sector - 1))))"
    and "stored_stage cfg g sector 8 = flip_matrix"
    and "stored_stage cfg g sector 9 =
           TGeoHMatrix_mul flip_matrix (StTpcOuterSectorPosition cfg (sector - 1))"
    and "stored_stage cfg g sector 10 = TGeoHMatrix_mul (SupS2Tpc_rotA cfg sector) flip_matrix"
    and "stored_stage cfg g sector 11 = TGeoHMatrix_mul (SupS2Tpc_rotA cfg sector)
           (TGeoHMatrix_mul flip_matrix (StTpcOuterSectorPosition cfg (sector - 1)))"
    and "stored_stage cfg g sector 12 =
           TGeoHMatrix_mul g (TGeoHMatrix_mul (SupS2Tpc_rotA cfg sector) flip_matrix)"
    and "stored_stage cfg g sector 13 = TGeoHMatrix_mul g (TGeoHMatrix_mul (SupS2Tpc_rotA cfg sector)
           (TGeoHMatrix_mul flip_matrix (StTpcOuterSectorPosition cfg (sector - 1))))"
    by (simp_all add: stored_stage_def Let_def facts)
qed

lemma TGeoHMatrix_mul_assoc:
  "TGeoHMatrix_mul (TGeoHMatrix_mul a b) c = TGeoHMatrix_mul a (TGeoHMatrix_mul b c)"
  by (simp add: TGeoHMatrix_mul_def rot_mul_def mat_vec_def vadd_def algebra_simps)

lemma sector_as_nat:
  assumes "1 \<le> sector" and "sector \<le> 24"
  obtains m where "sector = int m + 1" and "m < 24"
proof
  show "sector = int (nat (sector - 1)) + 1" using assms by simp
  show "nat (sector - 1) < 24" using assms by simp
qed

text \<open>
  Claim C4. The calibration provider supplies rigid transforms: the rotations of the
  super-sector and outer-sector alignment matrices are orthonormal. For every sector in
  1..24 the construction then returns, and the stages it has stored satisfy the stage
  algebra exactly, the re-orthonormalisation being the identity on an orthonormal
  rotation: \<open>SubSInner\<rightarrow>Tpc\<close>, \<open>SubSOuter\<rightarrow>Tpc\<close>, \<open>PadInner\<rightarrow>Tpc\<close> and \<open>PadOuter\<rightarrow>Tpc\<close> are
  \<open>SupS\<rightarrow>Tpc\<close> times the stage to the super-sector, \<open>SupS\<rightarrow>Glob\<close> is \<open>Tpc\<rightarrow>Global\<close> times
  \<open>SupS\<rightarrow>Tpc\<close>, and the stages to the global frame are \<open>Tpc\<rightarrow>Global\<close> times the stages to
  the chamber frame. No stage is recomputed: the construction is one run of the loop body
  over the passes, no pair of a sector and a stage is passed twice, the passes of the
  sectors 1..24 write slots that differ from each other, and after any sequence of
  conversions called on the constructed transform, from any statics of the row lookup,
  the transform is the constructed one.
\<close>

theorem stage_algebra:
  assumes "1 \<le> sector" and "sector \<le> 24"
    and oS: "orthonormal (fRotationMatrix (StTpcSuperSectorPosition cfg (sector - 1)))"
    and oO: "orthonormal (fRotationMatrix (StTpcOuterSectorPosition cfg (sector - 1)))"
  shows "\<exists>ct s2t i2s o2s.
           CoordTransform_new kUndefSector cfg = Inr ct
         \<and> SupS2Tpc ct sector = Inr s2t
         \<and> SubSInner2SupS ct sector = Inr i2s
         \<and> SubSOuter2SupS ct sector = Inr o2s
         \<and> SubSInner2Tpc ct sector = Inr (TGeoHMatrix_mul s2t i2s)
         \<and> SubSOuter2Tpc ct sector = Inr (TGeoHMatrix_mul s2t o2s)
         \<and> SupS2Glob ct sector = Inr (TGeoHMatrix_mul (ct_tpc2global ct) s2t)
         \<and> SubSInner2Glob ct sector
             = Inr (TGeoHMatrix_mul (ct_tpc2global ct) (TGeoHMatrix_mul s2t i2s))
         \<and> SubSInner2Glob ct sector
             = Inr (TGeoHMatrix_mul (TGeoHMatrix_mul (ct_tpc2global ct) s2t) i2s)
         \<and> SubSOuter2Glob ct sector
             = Inr (TGeoHMatrix_mul (ct_tpc2global ct) (TGeoHMatrix_mul s2t o2s))
         \<and> PadInner2SupS ct sector = Inr i2s
         \<and> PadOuter2SupS ct sector = Inr o2s
         \<and> PadInner2Tpc ct sector = Inr (TGeoHMatrix_mul s2t i2s)
         \<and> PadOuter2Tpc ct sector = Inr (TGeoHMatrix_mul s2t o2s)
         \<and> PadInner2Glob ct sector
             = Inr (TGeoHMatrix_mul (ct_tpc2global ct) (TGeoHMatrix_mul s2t i2s))
         \<and> PadOuter2Glob ct sector
             = Inr (TGeoHMatrix_mul (ct_tpc2global ct) (TGeoHMatrix_mul s2t o2s))
         \<and> (\<forall>ct0. SetTpcRotations kUndefSector ct0
               = foldE (\<lambda>ct (sector, k). SetTpcRotations_step ct sector k)
                   (SetTpcRotations_passes kUndefSector) ct0)
         \<and> distinct (SetTpcRotations_passes kUndefSector)
         \<and> inj_on (\<lambda>(sector, k). kTotalTpcSectorRotaions * (sector - 1) + k)
                  {p \<in> set (SetTpcRotations_passes kUndefSector). fst p \<noteq> 0}
         \<and> (\<forall>st cs. fst (snd (calls ct st cs)) = ct)"
proof -
  from assms(1,2) obtain m where m: "sector = int m + 1" "m < 24"
    by (rule sector_as_nat)
  from CoordTransform_new_result [of kUndefSector cfg] obtain ct
    where new: "CoordTransform_new kUndefSector cfg = Inr ct"
      and g: "ct_tpc2global ct = new_tpc2global kUndefSector cfg"
      and len: "length (ct_sector_rotations ct) = 336"
      and st: "\<forall>m < 24. sector_stored (ct_sector_rotations ct) cfg (new_tpc2global kUndefSector cfg) m"
    by blast
  from st m have "sector_stored (ct_sector_rotations ct) cfg (new_tpc2global kUndefSector cfg) m"
    by simp
  note reads = stored_reads [OF this len m(2), folded m(1)]
  note vals = stored_stage_orthonormal [OF oS oO orthonormal_new_tpc2global [of kUndefSector cfg]]
  have once: "\<forall>ct0. SetTpcRotations kUndefSector ct0
               = foldE (\<lambda>ct (sector, k). SetTpcRotations_step ct sector k)
                   (SetTpcRotations_passes kUndefSector) ct0"
    by (simp add: SetTpcRotations_passes_fold [symmetric])
  have frame: "\<forall>st cs. fst (snd (calls ct st cs)) = ct"
    by (simp add: calls_frame)
  show ?thesis
    by (rule exI [of _ ct], rule exI [of _ "SupS2Tpc_rotA cfg sector"], rule exI [of _ flip_matrix],
        rule exI [of _ "TGeoHMatrix_mul flip_matrix (StTpcOuterSectorPosition cfg (sector - 1))"],
        intro conjI)
       (simp_all only: new reads vals g TGeoHMatrix_mul_assoc once frame
          distinct_SetTpcRotations_passes SetTpcRotations_slots_inj simp_thms)
qed

theorem stage_algebra_witness:
  "(1 :: int) \<le> 3 \<and> (3 :: int) \<le> 24
   \<and> orthonormal (fRotationMatrix (StTpcSuperSectorPosition misaligned_cfg (3 - 1)))
   \<and> orthonormal (fRotationMatrix (StTpcOuterSectorPosition misaligned_cfg (3 - 1)))
   \<and> (\<exists>ct s2t i2s o2s.
           CoordTransform_new (- 2) misaligned_cfg = Inr ct
         \<and> SupS2Tpc ct 3 = Inr s2t
         \<and> SubSInner2SupS ct 3 = Inr i2s
         \<and> SubSOuter2SupS ct 3 = Inr o2s
         \<and> SubSInner2Tpc ct 3 = Inr (TGeoHMatrix_mul s2t i2s)
         \<and> SubSOuter2Tpc ct 3 = Inr (TGeoHMatrix_mul s2t o2s)
         \<and> SupS2Glob ct 3 = Inr (TGeoHMatrix_mul (ct_tpc2global ct) s2t)
         \<and> SubSInner2Glob ct 3
             = Inr (TGeoHMatrix_mul (ct_tpc2global ct) (TGeoHMatrix_mul s2t i2s))
         \<and> SubSInner2Glob ct 3
             = Inr (TGeoHMatrix_mul (TGeoHMatrix_mul (ct_tpc2global ct) s2t) i2s)
         \<and> SubSOuter2Glob ct 3
             = Inr (TGeoHMatrix_mul (ct_tpc2global ct) (TGeoHMatrix_mul s2t o2s))
         \<and> PadInner2SupS ct 3 = Inr i2s
         \<and> PadOuter2SupS ct 3 = Inr o2s
         \<and> PadInner2Tpc ct 3 = Inr (TGeoHMatrix_mul s2t i2s)
         \<and> PadOuter2Tpc ct 3 = Inr (TGeoHMatrix_mul s2t o2s)
         \<and> PadInner2Glob ct 3
             = Inr (TGeoHMatrix_mul (ct_tpc2global ct) (TGeoHMatrix_mul s2t i2s))
         \<and> PadOuter2Glob ct 3
             = Inr (TGeoHMatrix_mul (ct_tpc2global ct) (TGeoHMatrix_mul s2t o2s))
         \<and> (\<forall>ct0. SetTpcRotations (- 2) ct0
               = foldE (\<lambda>ct (sector, k). SetTpcRotations_step ct sector k)
                   (SetTpcRotations_passes (- 2)) ct0)
         \<and> distinct (SetTpcRotations_passes (- 2))
         \<and> inj_on (\<lambda>(sector, k). kTotalTpcSectorRotaions * (sector - 1) + k)
                  {p \<in> set (SetTpcRotations_passes (- 2)). fst p \<noteq> 0}
         \<and> (\<forall>st cs. fst (snd (calls ct st cs)) = ct))"
proof -
  have h1: "(1 :: int) \<le> 3" and h2: "(3 :: int) \<le> 24" by simp_all
  have h3: "orthonormal (fRotationMatrix (StTpcSuperSectorPosition misaligned_cfg (3 - 1)))"
    and h4: "orthonormal (fRotationMatrix (StTpcOuterSectorPosition misaligned_cfg (3 - 1)))"
    by (simp_all add: misaligned_cfg_def fixture_cfg_def orthonormal_def)
  from stage_algebra [OF h1 h2 h3 h4, of "- 2"] h1 h2 h3 h4 show ?thesis
    by (intro conjI)
qed

subsection \<open>The super-sector transform\<close>

lemma SupS2Tpc_rotA_composition:
  assumes "1 \<le> sector" and "sector \<le> 24"
  shows "SupS2Tpc_rotA cfg sector = SupS2Tpc_composition cfg sector"
proof (cases "sector \<le> 12")
  case True
  with assms have "(360 + 90 - 30 * sector) smod 360 = (360 + 90 - 30 * sector) mod 360"
    by (intro smod_mod_positive) simp_all
  with True show ?thesis
    by (simp add: SupS2Tpc_rotA_def SupS2Tpc_composition_def Let_def TGeoRotation_RotateZ_def
          RotateZ_def in_plane_rotation_def drift_distance_def)
next
  case False
  with assms have "(90 + 30 * (sector - 12)) smod 360 = (90 + 30 * (sector - 12)) mod 360"
    by (intro smod_mod_positive) simp_all
  with False show ?thesis
    by (simp add: SupS2Tpc_rotA_def SupS2Tpc_composition_def Let_def TGeoRotation_RotateZ_def
          RotateZ_def in_plane_rotation_def drift_distance_def SetAngles_flip flip_y_z_def
          TGeoHMatrix_mul_def rot_mul_def mat_vec_def vadd_def TGeoTranslation_def)
qed

text \<open>
  Whatever the alignment matrix, the cached \<open>SupS\<rightarrow>Tpc\<close> of a sector in 1..24 is the
  re-orthonormalisation of the composition.
\<close>

lemma SupS2Tpc_read:
  assumes "1 \<le> sector" and "sector \<le> 24"
  shows "\<exists>ct. CoordTransform_new kUndefSector cfg = Inr ct
          \<and> SupS2Tpc ct sector = Inr (Normalize (SupS2Tpc_composition cfg sector))"
proof -
  from assms obtain m where m: "sector = int m + 1" "m < 24"
    by (rule sector_as_nat)
  from CoordTransform_new_result [of kUndefSector cfg] obtain ct
    where new: "CoordTransform_new kUndefSector cfg = Inr ct"
      and len: "length (ct_sector_rotations ct) = 336"
      and st: "\<forall>m < 24. sector_stored (ct_sector_rotations ct) cfg (new_tpc2global kUndefSector cfg) m"
    by blast
  from st m have "sector_stored (ct_sector_rotations ct) cfg (new_tpc2global kUndefSector cfg) m"
    by simp
  from stored_reads(1) [OF this len m(2), folded m(1)]
  have "SupS2Tpc ct sector = Inr (Normalize (SupS2Tpc_composition cfg sector))"
    by (simp add: stored_stage_def Let_def SupS2Tpc_rotA_composition [OF assms])
  with new show ?thesis by blast
qed

text \<open>
  Claim C5. The calibration provider supplies rigid transforms: the rotation of the
  alignment matrix of a super-sector is orthonormal. The construction then returns, and
  the cached \<open>SupS\<rightarrow>Tpc\<close> of a sector \<open>s\<close> in 1..12 is the translation along the chamber
  axis by the drift distance, composed with the in-plane rotation by
  \<open>(360 + 90 - 30 s) mod 360\<close> degrees and with the alignment matrix of the sector; for a
  sector in 13..24 the translation is negated, the angle is \<open>(90 + 30 (s - 12)) mod 360\<close>
  degrees and the flip \<open>(x, y, z) \<mapsto> (x, -y, -z)\<close> is applied before the rotation.
\<close>

theorem SupS2Tpc_is_composition:
  assumes "1 \<le> sector" and "sector \<le> 24"
    and "orthonormal (fRotationMatrix (StTpcSuperSectorPosition cfg (sector - 1)))"
  shows "\<exists>ct. CoordTransform_new kUndefSector cfg = Inr ct
          \<and> SupS2Tpc ct sector = Inr (SupS2Tpc_composition cfg sector)"
proof -
  from SupS2Tpc_read [OF assms(1,2), of kUndefSector cfg] obtain ct
    where new: "CoordTransform_new kUndefSector cfg = Inr ct"
      and read: "SupS2Tpc ct sector = Inr (Normalize (SupS2Tpc_composition cfg sector))"
    by blast
  from orthonormal_SupS2Tpc_rotA [OF assms(3)]
  have "orthonormal (fRotationMatrix (SupS2Tpc_composition cfg sector))"
    by (simp add: SupS2Tpc_rotA_composition [OF assms(1,2)])
  then have "SupS2Tpc ct sector = Inr (SupS2Tpc_composition cfg sector)"
    by (simp add: read Normalize_orthonormal)
  with new show ?thesis by blast
qed

theorem SupS2Tpc_is_composition_witness:
  "(1 :: int) \<le> 12 \<and> (12 :: int) \<le> 24 \<and> (1 :: int) \<le> 15 \<and> (15 :: int) \<le> 24
   \<and> orthonormal (fRotationMatrix (StTpcSuperSectorPosition misaligned_cfg (12 - 1)))
   \<and> orthonormal (fRotationMatrix (StTpcSuperSectorPosition misaligned_cfg (15 - 1)))
   \<and> (\<exists>ct. CoordTransform_new (- 2) misaligned_cfg = Inr ct
          \<and> SupS2Tpc ct 12
              = Inr \<lparr>fTranslation = TVector3 (- 2) 1 212,
                     fRotationMatrix = Rotation (- (3 / 5)) (- (4 / 5)) 0 (4 / 5) (- (3 / 5)) 0 0 0 1\<rparr>)
   \<and> (\<exists>ct. CoordTransform_new (- 2) misaligned_cfg = Inr ct
          \<and> SupS2Tpc ct 15
              = Inr \<lparr>fTranslation = TVector3 (- 1) 2 (- 212),
                     fRotationMatrix = Rotation (- (4 / 5)) (3 / 5) 0 (3 / 5) (4 / 5) 0 0 0 (- 1)\<rparr>)"
proof -
  have h: "(1 :: int) \<le> 12" "(12 :: int) \<le> 24" "(1 :: int) \<le> 15" "(15 :: int) \<le> 24"
    by simp_all
  have o: "orthonormal (fRotationMatrix (StTpcSuperSectorPosition misaligned_cfg (12 - 1)))"
      "orthonormal (fRotationMatrix (StTpcSuperSectorPosition misaligned_cfg (15 - 1)))"
    by (simp_all add: misaligned_cfg_def fixture_cfg_def orthonormal_def)
  have a12: "\<exists>ct. CoordTransform_new (- 2) misaligned_cfg = Inr ct
          \<and> SupS2Tpc ct 12
              = Inr \<lparr>fTranslation = TVector3 (- 2) 1 212,
                     fRotationMatrix = Rotation (- (3 / 5)) (- (4 / 5)) 0 (4 / 5) (- (3 / 5)) 0 0 0 1\<rparr>"
    using SupS2Tpc_is_composition [OF h(1,2) o(1), of "- 2"]
    by (simp add: SupS2Tpc_composition_def in_plane_rotation_def drift_distance_def
          misaligned_cfg_def fixture_cfg_def TGeoHMatrix_mul_def TGeoTranslation_def rot_mul_def
          mat_vec_def vadd_def)
  have a15: "\<exists>ct. CoordTransform_new (- 2) misaligned_cfg = Inr ct
          \<and> SupS2Tpc ct 15
              = Inr \<lparr>fTranslation = TVector3 (- 1) 2 (- 212),
                     fRotationMatrix = Rotation (- (4 / 5)) (3 / 5) 0 (3 / 5) (4 / 5) 0 0 0 (- 1)\<rparr>"
    using SupS2Tpc_is_composition [OF h(3,4) o(2), of "- 2"]
    by (simp add: SupS2Tpc_composition_def in_plane_rotation_def drift_distance_def flip_y_z_def
          misaligned_cfg_def fixture_cfg_def TGeoHMatrix_mul_def TGeoTranslation_def rot_mul_def
          mat_vec_def vadd_def)
  from h o a12 a15 show ?thesis
    by (intro conjI)
qed

section \<open>Properties of the helix\<close>

text \<open>
  Claim C9. For a helix whose cached \<open>mCosPhase\<close> and \<open>mSinPhase\<close> are the cosine and sine
  of its phase and whose singularity flag says whether the curvature is zero, \<open>at(0)\<close>
  is the origin, on the straight and on the curved branch.
\<close>

theorem helix_at_zero_is_origin:
  assumes "mCosPhase h = cos (mPhase h)" and "mSinPhase h = sin (mPhase h)"
    and "mSingularity h = (mCurvature h = 0)" and "0 \<le> mCurvature h"
  shows "helix_at h 0 = mOrigin h"
  using assms by (simp add: helix_at_def helix_x_def helix_y_def helix_z_def)

theorem helix_at_zero_is_origin_witness:
  "mCosPhase fixture_helix = cos (mPhase fixture_helix)
   \<and> mSinPhase fixture_helix = sin (mPhase fixture_helix)
   \<and> mSingularity fixture_helix = (mCurvature fixture_helix = 0)
   \<and> 0 \<le> mCurvature fixture_helix
   \<and> helix_at fixture_helix 0 = mOrigin fixture_helix
   \<and> helix_at (fixture_helix\<lparr>mSingularity := True, mCurvature := 0\<rparr>) 0 = mOrigin fixture_helix"
  using helix_at_zero_is_origin [of fixture_helix]
        helix_at_zero_is_origin [of "fixture_helix\<lparr>mSingularity := True, mCurvature := 0\<rparr>"]
  by (simp add: fixture_helix_def)

text \<open>
  Claim C8. \<open>bad\<close> returns 0 exactly when no check fails, and otherwise the code of the
  first check that fails, in the order 11 (dip angle not finite), 12 (curvature not
  finite), \<open>3 + 100 k\<close> (the origin's check returns \<open>k \<noteq> 0\<close>), 21 (\<open>|dipAngle| > 1.58\<close>),
  31 (\<open>||dipAngle| - pi/2| < 1 / WorldSize\<close>), 22 (\<open>|curvature| > WorldSize\<close>),
  32 (negative curvature), 24 (\<open>|h| \<noteq> 1\<close>). The codes are pairwise different, and the
  function is total.
\<close>

theorem bad_codes:
  "(let dip = mDipAngle h; curv = mCurvature h; ierr = origin_bad (mOrigin h) W;
        c11 = (\<not> d_finite dip);
        c12 = (\<not> d_finite curv);
        c3 = (ierr \<noteq> 0);
        c21 = d_less (Finite 1.58) (d_abs dip);
        c31 = d_less (d_abs (d_sub (d_abs dip) (d_div (Finite pi) (Finite 2)))) (d_div (Finite 1) W);
        c22 = d_less W (d_abs curv);
        c32 = d_less curv (Finite 0);
        c24 = (\<bar>mH h\<bar> \<noteq> 1);
        r = bad origin_bad h W
    in (r = 0 \<longleftrightarrow> \<not> c11 \<and> \<not> c12 \<and> \<not> c3 \<and> \<not> c21 \<and> \<not> c31 \<and> \<not> c22 \<and> \<not> c32 \<and> \<not> c24)
     \<and> (r = 11 \<longleftrightarrow> c11)
     \<and> (r = 12 \<longleftrightarrow> \<not> c11 \<and> c12)
     \<and> ((\<exists>k. k \<noteq> 0 \<and> r = 3 + k * 100) \<longleftrightarrow> \<not> c11 \<and> \<not> c12 \<and> c3)
     \<and> ((\<exists>k. k \<noteq> 0 \<and> r = 3 + k * 100) \<longleftrightarrow> r = 3 + ierr * 100)
     \<and> (r = 21 \<longleftrightarrow> \<not> c11 \<and> \<not> c12 \<and> \<not> c3 \<and> c21)
     \<and> (r = 31 \<longleftrightarrow> \<not> c11 \<and> \<not> c12 \<and> \<not> c3 \<and> \<not> c21 \<and> c31)
     \<and> (r = 22 \<longleftrightarrow> \<not> c11 \<and> \<not> c12 \<and> \<not> c3 \<and> \<not> c21 \<and> \<not> c31 \<and> c22)
     \<and> (r = 32 \<longleftrightarrow> \<not> c11 \<and> \<not> c12 \<and> \<not> c3 \<and> \<not> c21 \<and> \<not> c31 \<and> \<not> c22 \<and> c32)
     \<and> (r = 24 \<longleftrightarrow> \<not> c11 \<and> \<not> c12 \<and> \<not> c3 \<and> \<not> c21 \<and> \<not> c31 \<and> \<not> c22 \<and> \<not> c32 \<and> c24))"
proof -
  have no3: "\<And>k c::int. c \<in> {0, 11, 12, 21, 31, 22, 32, 24} \<Longrightarrow> c \<noteq> 3 + k * 100"
    by auto presburger+
  show ?thesis
    unfolding Let_def bad_def
    using no3 by (auto)
qed

theorem bad_codes_witness:
  "bad (\<lambda>v w. 0) fixture_helix_d (Finite 100000) = 0
   \<and> bad (\<lambda>v w. 0) (fixture_helix_d\<lparr>mDipAngle := NaN\<rparr>) (Finite 100000) = 11
   \<and> bad (\<lambda>v w. 0) (fixture_helix_d\<lparr>mCurvature := PosInf\<rparr>) (Finite 100000) = 12
   \<and> bad (\<lambda>v w. 12) fixture_helix_d (Finite 100000) = 1203
   \<and> bad (\<lambda>v w. 0) (fixture_helix_d\<lparr>mDipAngle := Finite 1.6\<rparr>) (Finite 100000) = 21
   \<and> bad (\<lambda>v w. 0) fixture_helix_d (Finite 0.1) = 31
   \<and> bad (\<lambda>v w. 0) (fixture_helix_d\<lparr>mCurvature := Finite 200000\<rparr>) (Finite 100000) = 22
   \<and> bad (\<lambda>v w. 0) (fixture_helix_d\<lparr>mCurvature := Finite (- 1)\<rparr>) (Finite 100000) = 32
   \<and> bad (\<lambda>v w. 0) (fixture_helix_d\<lparr>mH := 2\<rparr>) (Finite 100000) = 24"
  using bad_codes [where origin_bad = "\<lambda>v w. 0" and h = fixture_helix_d and W = "Finite 100000"]
        pi_ge_two pi_less_4
  by (simp add: bad_def fixture_helix_d_def Let_def abs_if)

end
